theory Spec2Isabelle
  imports Complex_Main
begin

section \<open>Python values, exceptions and outcomes\<close>

text \<open>
  The classes of exception that the modelled code raises itself or names in an
  \<^verbatim>\<open>except\<close> clause, and \<open>OtherException\<close> for any other subclass of
  \<^verbatim>\<open>Exception\<close> that a collaborator (the model client, Redis, pandas) raises.
  An exception value carries its class and its \<^verbatim>\<open>str(e)\<close>.
\<close>

datatype exn_class =
    ValueError | KeyError | IndexError | ZeroDivisionError | TypeError | AttributeError
  | StopIteration | OverflowError
  | ModelProviderError | ProviderAuthenticationError | ProviderQuotaError
  | ProviderConnectionError
  | OtherException

datatype exn = Exn exn_class string

fun exn_cls :: "exn \<Rightarrow> exn_class" where
  "exn_cls (Exn c m) = c"

fun str_exn :: "exn \<Rightarrow> string" where
  "str_exn (Exn c m) = m"

text \<open>
  What evaluating an expression or awaiting a coroutine does: it returns a value, raises
  an exception, or never finishes (an awaited call that does not complete).
\<close>

datatype 'a outcome = Returns 'a | Raises exn | Hangs

fun obind :: "'a outcome \<Rightarrow> ('a \<Rightarrow> 'b outcome) \<Rightarrow> 'b outcome" where
  "obind (Returns v) f = f v"
| "obind (Raises e) f = Raises e"
| "obind Hangs f = Hangs"

text \<open>\<^verbatim>\<open>try: body  except Exception as e: return handler(e)\<close>\<close>

fun try_except :: "'a outcome \<Rightarrow> (exn \<Rightarrow> 'a outcome) \<Rightarrow> 'a outcome" where
  "try_except (Returns v) h = Returns v"
| "try_except (Raises e) h = h e"
| "try_except Hangs h = Hangs"

text \<open>
  Values decoded from JSON, as the market and price data are: \<^verbatim>\<open>None\<close>, a
  \<^verbatim>\<open>bool\<close>, an \<^verbatim>\<open>int\<close> of any size, a finite \<^verbatim>\<open>float\<close> (its exact value;
  JSON has no other floats), a \<^verbatim>\<open>str\<close>, a list, and a dict, which keeps its insertion
  order.
\<close>

datatype json =
    JNull | JBool bool | JInt int | JFloat rat | JStr string | JList "json list"
  | JObj "(string \<times> json) list"

text \<open>
  A \<^verbatim>\<open>float\<close> that a computation returns: finite, not a number, or infinite (\<open>True\<close>
  for the positive one). A comparison with a NaN is false.
\<close>

datatype pyfloat = Finite rat | NaN | Inf bool

fun float_gt :: "pyfloat \<Rightarrow> pyfloat \<Rightarrow> bool" where
  "float_gt (Finite x) (Finite y) = (x > y)"
| "float_gt (Finite x) (Inf pos) = (\<not> pos)"
| "float_gt (Inf pos) (Finite y) = pos"
| "float_gt (Inf pos) (Inf pos') = (pos \<and> \<not> pos')"
| "float_gt NaN y = False"
| "float_gt (Finite x) NaN = False"
| "float_gt (Inf pos) NaN = False"

definition float_lt :: "pyfloat \<Rightarrow> pyfloat \<Rightarrow> bool" where
  "float_lt x y = float_gt y x"

text \<open>
  The conversion of an \<^verbatim>\<open>int\<close> to a \<^verbatim>\<open>float\<close>, as formatting with \<^verbatim>\<open>:.2f\<close>
  and dividing by a float do it: an int that rounds to \<open>2 ^ 1024\<close> or beyond is too
  large.
\<close>

definition int_to_float :: "int \<Rightarrow> rat outcome" where
  "int_to_float n =
     (if \<bar>n\<bar> \<ge> 2 ^ 1024 - 2 ^ 970 then
        Raises (Exn OverflowError ''int too large to convert to float'')
      else Returns (of_int n))"

section \<open>Strings\<close>

text \<open>
  A string is the list of its code points, each below U+0100: the texts of the model are
  those that Latin-1 can write.
\<close>

definition nl :: string where
  "nl = [CHR 0x0A]"

definition quote_chr :: string where
  "quote_chr = [CHR 0x27]"

text \<open>\<^verbatim>\<open>s.split(sep)\<close> for a one-character separator: never an empty list.\<close>

fun split_chr :: "char \<Rightarrow> string \<Rightarrow> string list" where
  "split_chr c [] = [[]]"
| "split_chr c (x # xs) =
     (if x = c then [] # split_chr c xs
      else (case split_chr c xs of
              [] \<Rightarrow> [[x]]
            | l # ls \<Rightarrow> (x # l) # ls))"

text \<open>\<^verbatim>\<open>sep.join(parts)\<close>\<close>

fun join :: "string \<Rightarrow> string list \<Rightarrow> string" where
  "join sep [] = []"
| "join sep [p] = p"
| "join sep (p # q # ps) = p @ sep @ join sep (q # ps)"

text \<open>
  The characters below U+0100 for which \<^verbatim>\<open>str.isspace\<close> holds, the next line
  character U+0085 and the no-break space U+00A0 among them.
\<close>

definition isspace :: "char \<Rightarrow> bool" where
  "isspace c = (c \<in> set [CHR 0x09, CHR 0x0A, CHR 0x0B, CHR 0x0C, CHR 0x0D,
                           CHR 0x1C, CHR 0x1D, CHR 0x1E, CHR 0x1F, CHR 0x20,
                           CHR 0x85, CHR 0xA0])"

text \<open>\<^verbatim>\<open>s.strip()\<close>\<close>

definition strip :: "string \<Rightarrow> string" where
  "strip s = rev (dropWhile isspace (rev (dropWhile isspace s)))"

text \<open>\<^verbatim>\<open>s.startswith(p)\<close> and, for a tuple of prefixes, \<^verbatim>\<open>s.startswith((p1, ..., pn))\<close>\<close>

definition startswith :: "string \<Rightarrow> string \<Rightarrow> bool" where
  "startswith s p = (take (length p) s = p)"

definition startswith_any :: "string \<Rightarrow> string list \<Rightarrow> bool" where
  "startswith_any s ps = list_ex (startswith s) ps"

text \<open>\<^verbatim>\<open>p in s\<close> on strings\<close>

fun contains :: "string \<Rightarrow> string \<Rightarrow> bool" where
  "contains p [] = (p = [])"
| "contains p (x # xs) = (startswith (x # xs) p \<or> contains p xs)"

text \<open>
  \<^verbatim>\<open>s.lower()\<close>: the ASCII capitals and the capitals from U+00C0 to U+00DE (the
  multiplication sign apart) have a small letter; every other character stays.
\<close>

definition ascii_upper :: string where
  "ascii_upper = ''ABCDEFGHIJKLMNOPQRSTUVWXYZ''"

definition ascii_lower :: string where
  "ascii_lower = ''abcdefghijklmnopqrstuvwxyz''"

definition latin1_upper :: string where
  "latin1_upper =
     [CHR 0xC0, CHR 0xC1, CHR 0xC2, CHR 0xC3, CHR 0xC4, CHR 0xC5, CHR 0xC6, CHR 0xC7,
      CHR 0xC8, CHR 0xC9, CHR 0xCA, CHR 0xCB, CHR 0xCC, CHR 0xCD, CHR 0xCE, CHR 0xCF,
      CHR 0xD0, CHR 0xD1, CHR 0xD2, CHR 0xD3, CHR 0xD4, CHR 0xD5, CHR 0xD6, CHR 0xD8,
      CHR 0xD9, CHR 0xDA, CHR 0xDB, CHR 0xDC, CHR 0xDD, CHR 0xDE]"

definition latin1_lower :: string where
  "latin1_lower =
     [CHR 0xE0, CHR 0xE1, CHR 0xE2, CHR 0xE3, CHR 0xE4, CHR 0xE5, CHR 0xE6, CHR 0xE7,
      CHR 0xE8, CHR 0xE9, CHR 0xEA, CHR 0xEB, CHR 0xEC, CHR 0xED, CHR 0xEE, CHR 0xEF,
      CHR 0xF0, CHR 0xF1, CHR 0xF2, CHR 0xF3, CHR 0xF4, CHR 0xF5, CHR 0xF6, CHR 0xF8,
      CHR 0xF9, CHR 0xFA, CHR 0xFB, CHR 0xFC, CHR 0xFD, CHR 0xFE]"

definition lower_chr :: "char \<Rightarrow> char" where
  "lower_chr c =
     (case map_of (zip (ascii_upper @ latin1_upper) (ascii_lower @ latin1_lower)) c of
        Some d \<Rightarrow> d
      | None \<Rightarrow> c)"

text \<open>
  \<^verbatim>\<open>s.upper()\<close>, which the code applies to the words \<open>bullish\<close> and \<open>bearish\<close>
  only: on ASCII letters.
\<close>

definition upper_chr :: "char \<Rightarrow> char" where
  "upper_chr c = (case map_of (zip ascii_lower ascii_upper) c of Some d \<Rightarrow> d | None \<Rightarrow> c)"

definition lower :: "string \<Rightarrow> string" where
  "lower s = map lower_chr s"

definition upper :: "string \<Rightarrow> string" where
  "upper s = map upper_chr s"

section \<open>Operations on decoded JSON values\<close>

text \<open>
  The built-in operations that the agents apply to the market data. Each raises the
  exception Python raises when the value has the wrong shape; the texts of these
  interpreter messages are abbreviated.
\<close>

text \<open>\<^verbatim>\<open>x[k]\<close> with a \<^verbatim>\<open>str\<close> key\<close>

fun getitem :: "json \<Rightarrow> string \<Rightarrow> json outcome" where
  "getitem (JObj kvs) k =
     (case map_of kvs k of
        Some v \<Rightarrow> Returns v
      | None \<Rightarrow> Raises (Exn KeyError (quote_chr @ k @ quote_chr)))"
| "getitem (JList xs) k = Raises (Exn TypeError ''list indices must be integers or slices, not str'')"
| "getitem (JStr s) k = Raises (Exn TypeError ''string indices must be integers'')"
| "getitem (JFloat r) k = Raises (Exn TypeError ''object is not subscriptable'')"
| "getitem (JInt n) k = Raises (Exn TypeError ''object is not subscriptable'')"
| "getitem (JBool b) k = Raises (Exn TypeError ''object is not subscriptable'')"
| "getitem JNull k = Raises (Exn TypeError ''object is not subscriptable'')"

text \<open>\<^verbatim>\<open>x.keys()\<close> and \<^verbatim>\<open>x.values()\<close>\<close>

fun keys :: "json \<Rightarrow> string list outcome" where
  "keys (JObj kvs) = Returns (map fst kvs)"
| "keys (JList xs) = Raises (Exn AttributeError ''object has no attribute keys'')"
| "keys (JStr s) = Raises (Exn AttributeError ''object has no attribute keys'')"
| "keys (JFloat r) = Raises (Exn AttributeError ''object has no attribute keys'')"
| "keys (JInt n) = Raises (Exn AttributeError ''object has no attribute keys'')"
| "keys (JBool b) = Raises (Exn AttributeError ''object has no attribute keys'')"
| "keys JNull = Raises (Exn AttributeError ''object has no attribute keys'')"

fun values_of :: "json \<Rightarrow> json list outcome" where
  "values_of (JObj kvs) = Returns (map snd kvs)"
| "values_of (JList xs) = Raises (Exn AttributeError ''object has no attribute values'')"
| "values_of (JStr s) = Raises (Exn AttributeError ''object has no attribute values'')"
| "values_of (JFloat r) = Raises (Exn AttributeError ''object has no attribute values'')"
| "values_of (JInt n) = Raises (Exn AttributeError ''object has no attribute values'')"
| "values_of (JBool b) = Raises (Exn AttributeError ''object has no attribute values'')"
| "values_of JNull = Raises (Exn AttributeError ''object has no attribute values'')"

text \<open>\<^verbatim>\<open>next(iter(xs))\<close>, \<^verbatim>\<open>next(iter(xs), None)\<close> and \<^verbatim>\<open>list(xs)[0]\<close>\<close>

fun next_iter :: "'a list \<Rightarrow> 'a outcome" where
  "next_iter [] = Raises (Exn StopIteration [])"
| "next_iter (x # xs) = Returns x"

fun next_iter_default :: "json list \<Rightarrow> json" where
  "next_iter_default [] = JNull"
| "next_iter_default (x # xs) = x"

fun list_first :: "'a list \<Rightarrow> 'a outcome" where
  "list_first [] = Raises (Exn IndexError ''list index out of range'')"
| "list_first (x # xs) = Returns x"

text \<open>Truth value of an object, as in \<^verbatim>\<open>if not x\<close>\<close>

fun truthy :: "json \<Rightarrow> bool" where
  "truthy JNull = False"
| "truthy (JBool b) = b"
| "truthy (JInt n) = (n \<noteq> 0)"
| "truthy (JFloat r) = (r \<noteq> 0)"
| "truthy (JStr s) = (s \<noteq> [])"
| "truthy (JList xs) = (xs \<noteq> [])"
| "truthy (JObj kvs) = (kvs \<noteq> [])"

text \<open>\<^verbatim>\<open>isinstance(x, dict)\<close>\<close>

fun is_dict :: "json \<Rightarrow> bool" where
  "is_dict (JObj kvs) = True"
| "is_dict (JList xs) = False"
| "is_dict (JStr s) = False"
| "is_dict (JFloat r) = False"
| "is_dict (JInt n) = False"
| "is_dict (JBool b) = False"
| "is_dict JNull = False"

text \<open>\<^verbatim>\<open>k in x\<close> with a \<^verbatim>\<open>str\<close> on the left\<close>

fun json_in :: "string \<Rightarrow> json \<Rightarrow> bool outcome" where
  "json_in k (JObj kvs) = Returns (k \<in> set (map fst kvs))"
| "json_in k (JList xs) = Returns (JStr k \<in> set xs)"
| "json_in k (JStr s) = Returns (contains k s)"
| "json_in k (JFloat r) = Raises (Exn TypeError ''argument is not iterable'')"
| "json_in k (JInt n) = Raises (Exn TypeError ''argument is not iterable'')"
| "json_in k (JBool b) = Raises (Exn TypeError ''argument is not iterable'')"
| "json_in k JNull = Raises (Exn TypeError ''argument is not iterable'')"

text \<open>
  The value of a number that is compared with a number (\<^verbatim>\<open>x > 0\<close>); a
  \<^verbatim>\<open>bool\<close> counts as 0 or 1. The comparison of an int with an int or a float is exact.
\<close>

fun num_arg :: "json \<Rightarrow> rat outcome" where
  "num_arg (JFloat r) = Returns r"
| "num_arg (JInt n) = Returns (of_int n)"
| "num_arg (JBool b) = Returns (if b then 1 else 0)"
| "num_arg JNull = Raises (Exn TypeError ''comparison not supported between these types'')"
| "num_arg (JStr s) = Raises (Exn TypeError ''comparison not supported between these types'')"
| "num_arg (JList xs) = Raises (Exn TypeError ''comparison not supported between these types'')"
| "num_arg (JObj kvs) = Raises (Exn TypeError ''comparison not supported between these types'')"

text \<open>\<^verbatim>\<open>abs(x)\<close>: an int stays an int, a float a float.\<close>

fun py_abs :: "json \<Rightarrow> json outcome" where
  "py_abs (JFloat r) = Returns (JFloat \<bar>r\<bar>)"
| "py_abs (JInt n) = Returns (JInt \<bar>n\<bar>)"
| "py_abs (JBool b) = Returns (JInt (if b then 1 else 0))"
| "py_abs JNull = Raises (Exn TypeError ''bad operand type for abs()'')"
| "py_abs (JStr s) = Raises (Exn TypeError ''bad operand type for abs()'')"
| "py_abs (JList xs) = Raises (Exn TypeError ''bad operand type for abs()'')"
| "py_abs (JObj kvs) = Raises (Exn TypeError ''bad operand type for abs()'')"

text \<open>The left operand of a division by a float (\<^verbatim>\<open>x / 1e6\<close>), as a float.\<close>

fun float_arg :: "json \<Rightarrow> rat outcome" where
  "float_arg (JFloat r) = Returns r"
| "float_arg (JInt n) = int_to_float n"
| "float_arg (JBool b) = Returns (if b then 1 else 0)"
| "float_arg JNull = Raises (Exn TypeError ''unsupported operand type(s) for /'')"
| "float_arg (JStr s) = Raises (Exn TypeError ''unsupported operand type(s) for /'')"
| "float_arg (JList xs) = Raises (Exn TypeError ''unsupported operand type(s) for /'')"
| "float_arg (JObj kvs) = Raises (Exn TypeError ''unsupported operand type(s) for /'')"

text \<open>The argument of a \<^verbatim>\<open>:.2f\<close> format field, as a float.\<close>

fun fmt_arg :: "json \<Rightarrow> rat outcome" where
  "fmt_arg (JFloat r) = Returns r"
| "fmt_arg (JInt n) = int_to_float n"
| "fmt_arg (JBool b) = Returns (if b then 1 else 0)"
| "fmt_arg JNull = Raises (Exn TypeError ''unsupported format string passed to NoneType.__format__'')"
| "fmt_arg (JStr s) = Raises (Exn ValueError ''Unknown format code f for object of type str'')"
| "fmt_arg (JList xs) = Raises (Exn TypeError ''unsupported format string passed to list.__format__'')"
| "fmt_arg (JObj kvs) = Raises (Exn TypeError ''unsupported format string passed to dict.__format__'')"

section \<open>The world outside the program\<close>

datatype provider_class = AnthropicProvider | OpenAIProvider

datatype agent_class =
    MarketDataAgent | SentimentAgent | TechnicalAgent | RiskManagementAgent | PortfolioAgent

text \<open>
  What pandas and the indicator functions of \<^verbatim>\<open>tools.py\<close> give the technical
  agent: the converted frame (its columns, whether it is empty, the values of each
  column) and the latest value of each indicator, a float.
\<close>

record frame =
  columns :: "string list"
  empty :: bool
  cells :: "(string \<times> json list) list"

record latest =
  latest_rsi :: pyfloat
  latest_macd :: pyfloat
  latest_signal :: pyfloat
  latest_close :: pyfloat
  latest_upper :: pyfloat
  latest_lower :: pyfloat

text \<open>
  Everything the code reaches outside itself, as the parameters of one run.
  \<^item> \<open>get_provider_config\<close>: \<^verbatim>\<open>ModelConfig().get_provider_config(p)['default_model']\<close>;
    the configuration module is not part of the sources.
  \<^item> \<open>getenv\<close>: \<^verbatim>\<open>os.getenv\<close>.
  \<^item> \<open>PROVIDER_MAP\<close>: the table from provider name to provider class; its module is
    not part of the sources.
  \<^item> \<open>client_init\<close>: whether constructing \<^verbatim>\<open>ChatAnthropic\<close> or \<^verbatim>\<open>ChatOpenAI\<close>
    raises.
  \<^item> \<open>ainvoke\<close>: the model client held by the agent of a class, at its \<open>n\<close>-th call
    (counted from 0) with a prompt: the response's content, an exception, or no answer.
  \<^item> \<open>redis_from_url\<close>, \<open>redis_get\<close>, \<open>redis_set\<close>: the Redis client.
  \<^item> \<open>now_hour\<close>: \<^verbatim>\<open>datetime.now().strftime('%Y-%m-%d-%H')\<close>.
  \<^item> \<open>json_loads\<close>, \<open>json_dumps\<close>: the JSON codec on the analysis text.
  \<^item> \<open>format_f\<close>: \<^verbatim>\<open>format(x, '.Nf')\<close> of a float; \<open>py_str\<close>: \<^verbatim>\<open>str(x)\<close>;
    \<open>truediv\<close>: the division of a finite float by a float that is not zero.
  \<^item> \<open>pd_DataFrame\<close>: the conversion of the price data to a frame by pandas;
    \<open>indicators\<close>: RSI, MACD and Bollinger bands of a frame, latest values.
\<close>

record world =
  get_provider_config :: "string \<Rightarrow> string outcome"
  getenv :: "string \<Rightarrow> string option"
  PROVIDER_MAP :: "string \<Rightarrow> provider_class option"
  client_init :: "provider_class \<Rightarrow> string \<Rightarrow> string \<Rightarrow> exn option"
  ainvoke :: "agent_class \<Rightarrow> nat \<Rightarrow> string \<Rightarrow> string outcome"
  redis_from_url :: "string \<Rightarrow> unit outcome"
  redis_get :: "string \<Rightarrow> string option outcome"
  redis_set :: "string \<Rightarrow> string \<Rightarrow> nat \<Rightarrow> unit outcome"
  now_hour :: string
  json_loads :: "string \<Rightarrow> string outcome"
  json_dumps :: "string \<Rightarrow> string"
  format_f :: "nat \<Rightarrow> pyfloat \<Rightarrow> string"
  py_str :: "json \<Rightarrow> string"
  truediv :: "rat \<Rightarrow> rat \<Rightarrow> rat"
  pd_DataFrame :: "json \<Rightarrow> frame outcome"
  indicators :: "frame \<Rightarrow> latest outcome"

section \<open>Providers (\<^verbatim>\<open>providers/base.py\<close>, \<^verbatim>\<open>anthropic_provider.py\<close>, \<^verbatim>\<open>openai_provider.py\<close>)\<close>

text \<open>
  \<^verbatim>\<open>ModelProviderError.__init__\<close> and its subclasses: the message is prefixed with the
  provider in brackets.
\<close>

definition provider_error :: "exn_class \<Rightarrow> string \<Rightarrow> string \<Rightarrow> exn" where
  "provider_error cls message provider =
     Exn cls (''['' @ (if provider = [] then ''Unknown Provider'' else provider) @ ''] '' @ message)"

text \<open>
  The \<^verbatim>\<open>except Exception as e\<close> clause of \<^verbatim>\<open>AnthropicProvider\<close>, the same in
  \<^verbatim>\<open>_initialize_provider\<close>, \<^verbatim>\<open>create_message\<close> and \<^verbatim>\<open>generate_response\<close>.
\<close>

definition anthropic_except :: "exn \<Rightarrow> exn" where
  "anthropic_except e =
     (if contains ''authentication'' (lower (str_exn e)) then
        provider_error ProviderAuthenticationError (str_exn e) ''Anthropic''
      else if contains ''rate limit'' (lower (str_exn e)) then
        provider_error ProviderQuotaError (str_exn e) ''Anthropic''
      else if contains ''connection'' (lower (str_exn e)) then
        provider_error ProviderConnectionError (str_exn e) ''Anthropic''
      else
        provider_error ModelProviderError (str_exn e) ''Anthropic'')"

text \<open>The \<^verbatim>\<open>except\<close> clause of \<^verbatim>\<open>OpenAIProvider.create_message\<close> and \<^verbatim>\<open>generate_response\<close>.\<close>

definition openai_except :: "exn \<Rightarrow> exn" where
  "openai_except e =
     (if contains ''authentication'' (lower (str_exn e)) then
        provider_error ProviderAuthenticationError ''OpenAI authentication failed'' ''OpenAI''
      else if contains ''rate'' (lower (str_exn e)) then
        provider_error ProviderQuotaError ''OpenAI rate limit exceeded'' ''OpenAI''
      else if contains ''connection'' (lower (str_exn e)) then
        provider_error ProviderConnectionError ''OpenAI connection failed'' ''OpenAI''
      else
        provider_error ModelProviderError
          (''OpenAI response generation failed: '' @ str_exn e) ''OpenAI'')"

record provider =
  provider_cls :: provider_class
  model_name :: string
  api_key :: string
  owner :: agent_class

text \<open>
  \<^verbatim>\<open>__init__\<close> of the two providers, with \<^verbatim>\<open>_initialize_provider\<close>: the client is
  constructed, and a failure is reported as a provider error. \<open>owner\<close> records which
  agent holds the provider, and so which client of the world it talks to.
\<close>

definition provider_init ::
  "world \<Rightarrow> provider_class \<Rightarrow> agent_class \<Rightarrow> string \<Rightarrow> string \<Rightarrow> provider outcome" where
  "provider_init W cls own model key =
     (case client_init W cls model key of
        None \<Rightarrow>
          Returns \<lparr>provider_cls = cls, model_name = model, api_key = key, owner = own\<rparr>
      | Some e \<Rightarrow>
          (case cls of
             AnthropicProvider \<Rightarrow> Raises (anthropic_except e)
           | OpenAIProvider \<Rightarrow>
               Raises (provider_error ModelProviderError
                         (''Failed to initialize OpenAI provider: '' @ str_exn e) ''OpenAI'')))"

text \<open>
  \<^verbatim>\<open>create_message\<close>: one call of the client, the first of this client (every request
  builds its agents and their clients anew, and each agent sends one prompt). The
  Anthropic provider sends the prompt after an empty system prompt and two newlines.
  An exception of the client is classified and raised again; nothing is retried and no
  other provider is called.
\<close>

definition create_message :: "world \<Rightarrow> provider \<Rightarrow> string \<Rightarrow> string outcome" where
  "create_message W self messages =
     (case provider_cls self of
        AnthropicProvider \<Rightarrow>
          (case ainvoke W (owner self) 0 (nl @ nl @ messages) of
             Returns content \<Rightarrow> Returns content
           | Raises e \<Rightarrow> Raises (anthropic_except e)
           | Hangs \<Rightarrow> Hangs)
      | OpenAIProvider \<Rightarrow>
          (case ainvoke W (owner self) 0 messages of
             Returns content \<Rightarrow> Returns content
           | Raises e \<Rightarrow> Raises (openai_except e)
           | Hangs \<Rightarrow> Hangs))"

section \<open>Agents (\<^verbatim>\<open>agents/base.py\<close>, \<^verbatim>\<open>agents/specialized.py\<close>)\<close>

text \<open>
  An agent object: its class, \<^verbatim>\<open>self.provider\<close> (\<open>None\<close> when no provider is
  configured), and for the market data agent whether \<^verbatim>\<open>self.redis_client\<close> is set,
  and \<^verbatim>\<open>self.redis_url\<close>. \<open>provider_name\<close> keeps the argument of that name the
  constructor was called with; the code reads it only in the constructor.
\<close>

record agent =
  agent_cls :: agent_class
  self_provider :: "provider option"
  redis_client :: bool
  redis_url :: string
  provider_name :: string

text \<open>The price data argument: a decoded JSON value, or a frame built by the caller.\<close>

datatype price_data = PD_Json json | PD_Frame frame

text \<open>
  \<^verbatim>\<open>BaseAgent.__init__\<close>, through the constructors of the subclasses: the provider
  class is looked up in \<^verbatim>\<open>PROVIDER_MAP\<close> and instantiated.
\<close>

definition BaseAgent_init ::
  "world \<Rightarrow> agent_class \<Rightarrow> string \<Rightarrow> string \<Rightarrow> string \<Rightarrow> agent outcome" where
  "BaseAgent_init W cls model key pname =
     (case PROVIDER_MAP W pname of
        None \<Rightarrow> Raises (Exn KeyError (quote_chr @ pname @ quote_chr))
      | Some provider_class \<Rightarrow>
          obind (provider_init W provider_class cls model key) (\<lambda>p.
            Returns \<lparr>agent_cls = cls, self_provider = Some p, redis_client = False,
                     redis_url = ''redis://localhost'', provider_name = pname\<rparr>))"

text \<open>\<^verbatim>\<open>f"{quote[k]:.Nf}"\<close> and \<^verbatim>\<open>f"{quote[k]/d:.Nf}"\<close>\<close>

definition field_f :: "world \<Rightarrow> json \<Rightarrow> string \<Rightarrow> nat \<Rightarrow> string outcome" where
  "field_f W quote k n =
     obind (getitem quote k) (\<lambda>v.
     obind (fmt_arg v) (\<lambda>r.
       Returns (format_f W n (Finite r))))"

definition field_div_f :: "world \<Rightarrow> json \<Rightarrow> string \<Rightarrow> rat \<Rightarrow> nat \<Rightarrow> string outcome" where
  "field_div_f W quote k d n =
     obind (getitem quote k) (\<lambda>v.
     obind (float_arg v) (\<lambda>r.
       Returns (format_f W n (Finite (truediv W r d)))))"

text \<open>\<^verbatim>\<open>list(market_data['data'].values())[0]['quote']['USD']\<close>\<close>

definition first_quote_USD :: "json \<Rightarrow> json outcome" where
  "first_quote_USD market_data =
     obind (getitem market_data ''data'') (\<lambda>data.
     obind (values_of data) (\<lambda>vs.
     obind (list_first vs) (\<lambda>crypto.
     obind (getitem crypto ''quote'') (\<lambda>q.
       getitem q ''USD''))))"

definition indent :: string where
  "indent = ''                ''"

subsection \<open>MarketDataAgent\<close>

text \<open>\<^verbatim>\<open>_init_redis\<close>: the client is created on first use.\<close>

definition init_redis :: "world \<Rightarrow> agent \<Rightarrow> agent outcome" where
  "init_redis W self =
     (if \<not> redis_client self then
        obind (redis_from_url W (redis_url self)) (\<lambda>_.
          Returns (self\<lparr>redis_client := True\<rparr>))
      else Returns self)"

definition reasoning_markers :: "string list" where
  "reasoning_markers = [''Because'', ''This is based on'', ''Given that'', ''Considering'']"

text \<open>
  Lines 108 to 113: the response is split into lines, the lines that start with a
  marker once stripped are dropped, and the rest is joined again.
\<close>

definition analysis_lines :: "string \<Rightarrow> string list" where
  "analysis_lines response =
     filter (\<lambda>line. \<not> startswith_any (strip line) reasoning_markers)
       (split_chr (CHR 0x0A) response)"

definition market_analysis :: "bool \<Rightarrow> string \<Rightarrow> string" where
  "market_analysis show_reasoning response =
     (if \<not> show_reasoning then join nl (analysis_lines response) else response)"

definition reasoning_request :: "bool \<Rightarrow> string" where
  "reasoning_request show_reasoning =
     (if show_reasoning then
        nl @ indent @ ''For each point, please explain your reasoning by:'' @ nl
        @ indent @ ''- Citing specific data points that support your conclusion'' @ nl
        @ indent @ ''- Explaining the significance of these indicators'' @ nl
        @ indent @ ''- Describing how you arrived at your assessment'' @ nl
        @ indent
      else [])"

definition market_prompt :: "string \<Rightarrow> bool \<Rightarrow> string" where
  "market_prompt market_stats show_reasoning =
     ''Analyze the following cryptocurrency market data and provide insights:'' @ nl
     @ indent @ market_stats @ nl
     @ indent @ nl
     @ indent @ ''Please provide:'' @ nl
     @ indent @ ''1. Market strength assessment'' @ nl
     @ indent @ ''2. Notable patterns or concerns'' @ nl
     @ indent @ ''3. Key factors to watch'' @ nl
     @ indent @ reasoning_request show_reasoning @ nl
     @ indent"

definition market_stats_of :: "world \<Rightarrow> json \<Rightarrow> string outcome" where
  "market_stats_of W quote =
     obind (field_f W quote ''price'' 2) (\<lambda>price.
     obind (field_f W quote ''percent_change_24h'' 2) (\<lambda>change.
     obind (field_div_f W quote ''volume_24h'' 1000000 1) (\<lambda>volume.
     obind (field_div_f W quote ''market_cap'' 1000000000 2) (\<lambda>cap.
       Returns (''=== MARKET STATISTICS ==='' @ nl
                @ ''Current Price:    $'' @ price @ nl
                @ ''24h Change:       '' @ change @ ''%'' @ nl
                @ ''Volume:          $'' @ volume @ ''M'' @ nl
                @ ''Market Cap:      $'' @ cap @ ''B'')))))"

text \<open>Lines 54 to 56: the cache key.\<close>

definition cache_key_of :: "world \<Rightarrow> json \<Rightarrow> string outcome" where
  "cache_key_of W market_data =
     obind (getitem market_data ''data'') (\<lambda>data.
     obind (keys data) (\<lambda>ks.
     obind (next_iter ks) (\<lambda>symbol.
     obind (getitem data symbol) (\<lambda>crypto.
     obind (getitem crypto ''quote'') (\<lambda>q.
     obind (getitem q ''USD'') (\<lambda>quote.
     obind (getitem quote ''price'') (\<lambda>price.
     obind (getitem quote ''percent_change_24h'') (\<lambda>change.
       Returns (symbol @ '':'' @ py_str W price @ '':'' @ py_str W change @ '':''
                @ now_hour W)))))))))"

text \<open>
  Lines 63 to 117, after a cache miss: either one of the two early returns (\<open>Inl\<close>,
  the text returned), or the analysis that is then stored and returned (\<open>Inr\<close>).
\<close>

definition market_result ::
  "world \<Rightarrow> agent \<Rightarrow> json \<Rightarrow> bool \<Rightarrow> (string + string) outcome" where
  "market_result W self market_data show_reasoning =
     (if \<not> is_dict market_data then Returns (Inl ''Error: Invalid or missing market data'')
      else
     obind (json_in ''data'' market_data) (\<lambda>has_data.
     if \<not> has_data then Returns (Inl ''Error: Invalid or missing market data'')
     else
     obind (getitem market_data ''data'') (\<lambda>data.
     obind (values_of data) (\<lambda>vs.
     let crypto_data = next_iter_default vs in
     if \<not> truthy crypto_data then
       Returns (Inl ''Error: Invalid cryptocurrency data structure'')
     else
     obind (json_in ''quote'' crypto_data) (\<lambda>has_quote.
     if \<not> has_quote then Returns (Inl ''Error: Invalid cryptocurrency data structure'')
     else
     obind (getitem crypto_data ''quote'') (\<lambda>q.
     obind (json_in ''USD'' q) (\<lambda>has_usd.
     if \<not> has_usd then Returns (Inl ''Error: Invalid cryptocurrency data structure'')
     else
     obind (getitem q ''USD'') (\<lambda>quote.
     obind (market_stats_of W quote) (\<lambda>market_stats.
       case self_provider self of
         Some p \<Rightarrow>
           obind (create_message W p (market_prompt market_stats show_reasoning))
             (\<lambda>response. Returns (Inr (market_analysis show_reasoning response)))
       | None \<Rightarrow> Returns (Inr market_stats))))))))))"

text \<open>Lines 119 and 120: the analysis is stored for an hour, then returned.\<close>

definition market_compute ::
  "world \<Rightarrow> agent \<Rightarrow> json \<Rightarrow> bool \<Rightarrow> string \<Rightarrow> string outcome" where
  "market_compute W self market_data show_reasoning cache_key =
     obind (market_result W self market_data show_reasoning) (\<lambda>r.
       case r of
         Inl early \<Rightarrow> Returns early
       | Inr analysis \<Rightarrow>
           obind (redis_set W cache_key (json_dumps W analysis) 3600) (\<lambda>_.
             Returns analysis))"

text \<open>
  \<^verbatim>\<open>MarketDataAgent.analyze\<close>. The Redis client is initialised before the
  \<^verbatim>\<open>try\<close>; the cache lookup and everything after it are inside.
\<close>

definition MarketDataAgent_analyze ::
  "world \<Rightarrow> agent \<Rightarrow> price_data \<Rightarrow> json \<Rightarrow> bool \<Rightarrow> string \<Rightarrow> string outcome" where
  "MarketDataAgent_analyze W self0 price_data market_data show_reasoning symbol =
     obind (init_redis W self0) (\<lambda>self.
       try_except
         (obind (cache_key_of W market_data) (\<lambda>cache_key.
          obind (redis_get W cache_key) (\<lambda>cached_result.
            case cached_result of
              None \<Rightarrow> market_compute W self market_data show_reasoning cache_key
            | Some c \<Rightarrow>
                if c \<noteq> [] then json_loads W c
                else market_compute W self market_data show_reasoning cache_key)))
         (\<lambda>e. Returns (''Error analyzing market data: '' @ str_exn e)))"

subsection \<open>SentimentAgent\<close>

definition sentiment_prompt :: "string \<Rightarrow> string" where
  "sentiment_prompt market_stats =
     ''Analyze the market sentiment based on the following cryptocurrency data:'' @ nl
     @ indent @ market_stats @ nl
     @ indent @ nl
     @ indent @ ''Please provide:'' @ nl
     @ indent @ ''1. Overall market sentiment (bullish/bearish/neutral)'' @ nl
     @ indent @ ''2. Key sentiment indicators'' @ nl
     @ indent @ ''3. Sentiment outlook for next 24-48 hours'' @ nl
     @ indent"

definition sentiment_body ::
  "world \<Rightarrow> agent \<Rightarrow> price_data \<Rightarrow> json \<Rightarrow> bool \<Rightarrow> string \<Rightarrow> string outcome" where
  "sentiment_body W self price_data market_data show_reasoning symbol =
     obind (first_quote_USD market_data) (\<lambda>quote.
     obind (field_f W quote ''percent_change_24h'' 2) (\<lambda>c24.
     obind (field_f W quote ''percent_change_7d'' 2) (\<lambda>c7.
     obind (field_f W quote ''percent_change_30d'' 2) (\<lambda>c30.
     obind (field_f W quote ''volume_change_24h'' 2) (\<lambda>vc.
     let market_stats =
           ''=== MARKET TRENDS ==='' @ nl
           @ ''24h Change: '' @ c24 @ ''%'' @ nl
           @ ''7d Change: '' @ c7 @ ''%'' @ nl
           @ ''30d Change: '' @ c30 @ ''%'' @ nl
           @ ''Volume Change 24h: '' @ vc @ ''%''
     in
     case self_provider self of
       Some p \<Rightarrow>
         obind (create_message W p (sentiment_prompt market_stats)) (\<lambda>response.
           Returns response)
     | None \<Rightarrow>
         obind (getitem quote ''percent_change_24h'') (\<lambda>v.
         obind (num_arg v) (\<lambda>change.
         let sentiment = (if change > 0 then ''bullish'' else ''bearish'') in
         obind (field_f W quote ''percent_change_24h'' 2) (\<lambda>t24.
         obind (field_f W quote ''percent_change_7d'' 2) (\<lambda>t7.
           Returns (''Market Sentiment: '' @ upper sentiment @ nl
                    @ ''24h Trend: '' @ t24 @ ''%'' @ nl
                    @ ''7d Trend: '' @ t7 @ ''%''))))))))))"

definition SentimentAgent_analyze ::
  "world \<Rightarrow> agent \<Rightarrow> price_data \<Rightarrow> json \<Rightarrow> bool \<Rightarrow> string \<Rightarrow> string outcome" where
  "SentimentAgent_analyze W self price_data market_data show_reasoning symbol =
     try_except (sentiment_body W self price_data market_data show_reasoning symbol)
       (\<lambda>e. Returns (''Error analyzing sentiment: '' @ str_exn e))"

subsection \<open>TechnicalAgent\<close>

definition technical_prompt :: "string \<Rightarrow> string" where
  "technical_prompt technical_data =
     ''Analyze these technical indicators and provide trading insights:'' @ nl
     @ indent @ technical_data @ nl
     @ indent @ nl
     @ indent @ ''Please provide:'' @ nl
     @ indent @ ''1. Overall technical analysis summary'' @ nl
     @ indent @ ''2. Key indicator signals (RSI, MACD, Bollinger Bands)'' @ nl
     @ indent @ ''3. Potential price action scenarios'' @ nl
     @ indent @ ''4. Trading recommendations based on technical analysis'' @ nl
     @ indent"

text \<open>
  Lines 185 to 223: a dict is converted by pandas and must have a \<open>close\<close> column, any
  failure becoming a \<^verbatim>\<open>ValueError\<close>; anything else is used as the frame itself, and a
  JSON value that is not a dict has no attribute \<^verbatim>\<open>empty\<close>.
\<close>

definition technical_frame :: "world \<Rightarrow> price_data \<Rightarrow> frame outcome" where
  "technical_frame W price_data =
     (case price_data of
        PD_Frame df \<Rightarrow> Returns df
      | PD_Json j \<Rightarrow>
          if is_dict j then
            try_except
              (obind (pd_DataFrame W j) (\<lambda>df.
                 if ''close'' \<notin> set (columns df) then
                   Raises (Exn ValueError
                     (''Missing required columns: ['' @ quote_chr @ ''close'' @ quote_chr @ '']''))
                 else Returns df))
              (\<lambda>e. Raises (Exn ValueError
                      (''Error converting prices to DataFrame: '' @ str_exn e)))
          else Raises (Exn AttributeError ''object has no attribute empty''))"

definition technical_body ::
  "world \<Rightarrow> agent \<Rightarrow> price_data \<Rightarrow> json \<Rightarrow> bool \<Rightarrow> string \<Rightarrow> string outcome" where
  "technical_body W self price_data market_data show_reasoning symbol =
     obind (technical_frame W price_data) (\<lambda>df.
     if empty df then Returns ''Error: No price data available for technical analysis''
     else
     obind (indicators W df) (\<lambda>i.
     let rsi = format_f W 2 (latest_rsi i);
         macd = format_f W 2 (latest_macd i);
         signal = format_f W 2 (latest_signal i);
         close = format_f W 2 (latest_close i);
         upper_bb = format_f W 2 (latest_upper i);
         lower_bb = format_f W 2 (latest_lower i);
         technical_data =
           ''=== TECHNICAL INDICATORS ==='' @ nl
           @ ''RSI (14): '' @ rsi @ nl
           @ ''MACD: '' @ macd @ nl
           @ ''Signal Line: '' @ signal @ nl
           @ ''Current Price: '' @ close @ nl
           @ ''Upper BB: '' @ upper_bb @ nl
           @ ''Lower BB: '' @ lower_bb
     in
     case self_provider self of
       Some p \<Rightarrow>
         obind (create_message W p (technical_prompt technical_data)) (\<lambda>response.
           Returns response)
     | None \<Rightarrow>
         let rsi_signal =
               (if float_gt (latest_rsi i) (Finite 70) then ''Overbought''
                else if float_lt (latest_rsi i) (Finite 30) then ''Oversold''
                else ''Neutral'');
             macd_signal =
               (if float_gt (latest_macd i) (latest_signal i) then ''Bullish''
                else ''Bearish'');
             bb_signal =
               (if float_gt (latest_close i) (latest_upper i) then ''Overbought''
                else if float_lt (latest_close i) (latest_lower i) then ''Oversold''
                else ''Neutral'')
         in
         Returns (''Technical Analysis:'' @ nl
                  @ ''RSI (14): '' @ rsi @ '' - '' @ rsi_signal @ nl
                  @ ''MACD Signal: '' @ macd_signal @ '' (MACD: '' @ macd
                  @ '', Signal: '' @ signal @ '')'' @ nl
                  @ ''Bollinger Bands: '' @ bb_signal @ '' (Price: '' @ close
                  @ '', Upper: '' @ upper_bb @ '', Lower: '' @ lower_bb @ '')'')))"

definition TechnicalAgent_analyze ::
  "world \<Rightarrow> agent \<Rightarrow> price_data \<Rightarrow> json \<Rightarrow> bool \<Rightarrow> string \<Rightarrow> string outcome" where
  "TechnicalAgent_analyze W self price_data market_data show_reasoning symbol =
     try_except (technical_body W self price_data market_data show_reasoning symbol)
       (\<lambda>e. Returns (''Error analyzing technical indicators: '' @ str_exn e))"

subsection \<open>RiskManagementAgent\<close>

definition risk_prompt :: "string \<Rightarrow> string" where
  "risk_prompt risk_data =
     ''Analyze the following risk metrics for this cryptocurrency:'' @ nl
     @ indent @ risk_data @ nl
     @ indent @ nl
     @ indent @ ''Please provide:'' @ nl
     @ indent @ ''1. Overall risk assessment'' @ nl
     @ indent @ ''2. Key risk factors'' @ nl
     @ indent @ ''3. Risk mitigation recommendations'' @ nl
     @ indent @ ''4. Position sizing suggestions'' @ nl
     @ indent"

definition risk_body ::
  "world \<Rightarrow> agent \<Rightarrow> price_data \<Rightarrow> json \<Rightarrow> bool \<Rightarrow> string \<Rightarrow> string outcome" where
  "risk_body W self price_data market_data show_reasoning symbol =
     obind (first_quote_USD market_data) (\<lambda>quote.
     obind (getitem quote ''percent_change_24h'') (\<lambda>v.
     obind (py_abs v) (\<lambda>volatility.
     obind (fmt_arg volatility) (\<lambda>vol.
     obind (field_f W quote ''volume_change_24h'' 2) (\<lambda>vc.
     obind (field_div_f W quote ''market_cap'' 1000000000 2) (\<lambda>cap.
     obind (field_div_f W quote ''volume_24h'' 1000000 2) (\<lambda>volume.
     let risk_data =
           ''=== RISK METRICS ==='' @ nl
           @ ''24h Volatility: '' @ format_f W 2 (Finite vol) @ ''%'' @ nl
           @ ''Volume Change: '' @ vc @ ''%'' @ nl
           @ ''Market Cap: $'' @ cap @ ''B'' @ nl
           @ ''24h Volume: $'' @ volume @ ''M''
     in
     case self_provider self of
       Some p \<Rightarrow>
         obind (create_message W p (risk_prompt risk_data)) (\<lambda>response.
           Returns response)
     | None \<Rightarrow>
         obind (num_arg volatility) (\<lambda>x.
         let risk_level =
               (if x > 10 then ''HIGH''
                else if x > 5 then ''MEDIUM'' else ''LOW'')
         in
         obind (fmt_arg volatility) (\<lambda>vol2.
         obind (field_f W quote ''volume_change_24h'' 2) (\<lambda>vc2.
           Returns (''Risk Level: '' @ risk_level @ nl
                    @ ''Volatility: '' @ format_f W 2 (Finite vol2) @ ''%'' @ nl
                    @ ''Volume Change: '' @ vc2 @ ''%'')))))))))))"

definition RiskManagementAgent_analyze ::
  "world \<Rightarrow> agent \<Rightarrow> price_data \<Rightarrow> json \<Rightarrow> bool \<Rightarrow> string \<Rightarrow> string outcome" where
  "RiskManagementAgent_analyze W self price_data market_data show_reasoning symbol =
     try_except (risk_body W self price_data market_data show_reasoning symbol)
       (\<lambda>e. Returns (''Error analyzing risks: '' @ str_exn e))"

subsection \<open>PortfolioAgent\<close>

definition portfolio_prompt :: "string \<Rightarrow> string" where
  "portfolio_prompt portfolio_data =
     ''Analyze these portfolio metrics and provide investment recommendations:'' @ nl
     @ indent @ portfolio_data @ nl
     @ indent @ nl
     @ indent @ ''Please provide:'' @ nl
     @ indent @ ''1. Recommended portfolio action (buy/sell/hold)'' @ nl
     @ indent @ ''2. Position sizing recommendation'' @ nl
     @ indent @ ''3. Risk management considerations'' @ nl
     @ indent @ ''4. Short-term and long-term outlook'' @ nl
     @ indent"

definition portfolio_body ::
  "world \<Rightarrow> agent \<Rightarrow> price_data \<Rightarrow> json \<Rightarrow> bool \<Rightarrow> string \<Rightarrow> string outcome" where
  "portfolio_body W self price_data market_data show_reasoning symbol =
     obind (first_quote_USD market_data) (\<lambda>quote.
     obind (field_f W quote ''price'' 2) (\<lambda>price.
     obind (field_f W quote ''percent_change_24h'' 2) (\<lambda>c24.
     obind (field_f W quote ''percent_change_7d'' 2) (\<lambda>c7.
     obind (field_div_f W quote ''market_cap'' 1000000000 2) (\<lambda>cap.
     obind (field_div_f W quote ''volume_24h'' 1000000 2) (\<lambda>volume.
     let portfolio_data =
           ''=== PORTFOLIO METRICS ==='' @ nl
           @ ''Current Price: $'' @ price @ nl
           @ ''24h Change: '' @ c24 @ ''%'' @ nl
           @ ''7d Change: '' @ c7 @ ''%'' @ nl
           @ ''Market Cap: $'' @ cap @ ''B'' @ nl
           @ ''Volume: $'' @ volume @ ''M''
     in
     case self_provider self of
       Some p \<Rightarrow>
         obind (create_message W p (portfolio_prompt portfolio_data)) (\<lambda>response.
           Returns response)
     | None \<Rightarrow>
         obind (getitem quote ''percent_change_24h'') (\<lambda>v.
         obind (num_arg v) (\<lambda>trend.
         let action =
               (if trend > 5 then ''TAKE PROFIT''
                else if trend < - 5 then ''BUY DIP'' else ''HOLD'')
         in
         obind (fmt_arg v) (\<lambda>t.
           Returns (''Recommended Action: '' @ action @ nl
                    @ ''Price Trend: '' @ format_f W 2 (Finite t) @ ''%'' @ nl
                    @ ''Market Direction: ''
                    @ (if trend > 0 then ''Upward'' else ''Downward'')))))))))))"

definition PortfolioAgent_analyze ::
  "world \<Rightarrow> agent \<Rightarrow> price_data \<Rightarrow> json \<Rightarrow> bool \<Rightarrow> string \<Rightarrow> string outcome" where
  "PortfolioAgent_analyze W self price_data market_data show_reasoning symbol =
     try_except (portfolio_body W self price_data market_data show_reasoning symbol)
       (\<lambda>e. Returns (''Error generating portfolio advice: '' @ str_exn e))"

text \<open>\<^verbatim>\<open>agent.analyze(...)\<close>: the method of the agent's class.\<close>

definition analyze ::
  "world \<Rightarrow> agent \<Rightarrow> price_data \<Rightarrow> json \<Rightarrow> bool \<Rightarrow> string \<Rightarrow> string outcome" where
  "analyze W self price_data market_data show_reasoning symbol =
     (case agent_cls self of
        MarketDataAgent \<Rightarrow>
          MarketDataAgent_analyze W self price_data market_data show_reasoning symbol
      | SentimentAgent \<Rightarrow>
          SentimentAgent_analyze W self price_data market_data show_reasoning symbol
      | TechnicalAgent \<Rightarrow>
          TechnicalAgent_analyze W self price_data market_data show_reasoning symbol
      | RiskManagementAgent \<Rightarrow>
          RiskManagementAgent_analyze W self price_data market_data show_reasoning symbol
      | PortfolioAgent \<Rightarrow>
          PortfolioAgent_analyze W self price_data market_data show_reasoning symbol)"

section \<open>The orchestrator (\<^verbatim>\<open>agents/__init__.py\<close>)\<close>

text \<open>
  A Python dict with \<^verbatim>\<open>str\<close> keys: the entries in insertion order. Assigning to a
  key that is present replaces its value where it stands.
\<close>

type_synonym 'v dict = "(string \<times> 'v) list"

fun dict_set :: "'v dict \<Rightarrow> string \<Rightarrow> 'v \<Rightarrow> 'v dict" where
  "dict_set [] k v = [(k, v)]"
| "dict_set ((k', v') # d) k v =
     (if k' = k then (k, v) # d else (k', v') # dict_set d k v)"

definition dict_get :: "'v dict \<Rightarrow> string \<Rightarrow> 'v outcome" where
  "dict_get d k =
     (case map_of d k of
        Some v \<Rightarrow> Returns v
      | None \<Rightarrow> Raises (Exn KeyError (quote_chr @ k @ quote_chr)))"

text \<open>\<^verbatim>\<open>dict(pairs)\<close>\<close>

definition dict_of :: "(string \<times> 'v) list \<Rightarrow> 'v dict" where
  "dict_of pairs = foldl (\<lambda>d (k, v). dict_set d k v) [] pairs"

text \<open>The \<^verbatim>\<open>provider_map\<close> argument: absent, one provider name, or a list of names.\<close>

datatype provider_map = PM_None | PM_Str string | PM_List "string list"

text \<open>
  Lines 50 to 52: the providers the loop runs over; none when \<^verbatim>\<open>provider_map\<close> is
  \<open>None\<close> or empty.
\<close>

fun providers_of :: "provider_map \<Rightarrow> string list" where
  "providers_of PM_None = []"
| "providers_of (PM_Str s) = (if s = [] then [] else [s])"
| "providers_of (PM_List ps) = ps"

definition env_key :: "world \<Rightarrow> string \<Rightarrow> string outcome" where
  "env_key W var =
     (case getenv W var of
        None \<Rightarrow> Raises (Exn ValueError (var @ '' not found in environment variables''))
      | Some k \<Rightarrow>
          if k = [] then Raises (Exn ValueError (var @ '' not found in environment variables''))
          else Returns k)"

text \<open>Lines 54 to 69: the loop that fills \<^verbatim>\<open>provider_configs\<close> and \<^verbatim>\<open>api_keys\<close>.\<close>

fun load_providers ::
  "world \<Rightarrow> string list \<Rightarrow> string dict \<Rightarrow> string dict \<Rightarrow> (string dict \<times> string dict) outcome"
where
  "load_providers W [] provider_configs api_keys = Returns (provider_configs, api_keys)"
| "load_providers W (p # ps) provider_configs api_keys =
     obind (get_provider_config W p) (\<lambda>default_model.
       if p = ''anthropic'' then
         obind (env_key W ''ANTHROPIC_API_KEY'') (\<lambda>k.
           load_providers W ps (dict_set provider_configs p default_model)
             (dict_set api_keys p k))
       else if p = ''openai'' then
         obind (env_key W ''OPENAI_API_KEY'') (\<lambda>k.
           load_providers W ps (dict_set provider_configs p default_model)
             (dict_set api_keys p k))
       else
         load_providers W ps (dict_set provider_configs p default_model) api_keys)"

definition agent_mapping :: "(string \<times> string \<times> agent_class) list" where
  "agent_mapping =
     [(''market'', ''market_data_agent'', MarketDataAgent),
      (''sentiment'', ''sentiment_agent'', SentimentAgent),
      (''technical'', ''technical_agent'', TechnicalAgent),
      (''risk'', ''risk_management_agent'', RiskManagementAgent),
      (''portfolio'', ''portfolio_agent'', PortfolioAgent)]"

text \<open>
  \<^verbatim>\<open>agent_class(model_name=provider_configs[provider], api_key=api_keys[provider],
  provider_name=provider)\<close>
\<close>

definition new_agent ::
  "world \<Rightarrow> agent_class \<Rightarrow> string dict \<Rightarrow> string dict \<Rightarrow> string \<Rightarrow> agent outcome" where
  "new_agent W cls provider_configs api_keys provider =
     obind (dict_get provider_configs provider) (\<lambda>model.
     obind (dict_get api_keys provider) (\<lambda>key.
       BaseAgent_init W cls model key provider))"

text \<open>Lines 98 to 104: the round-robin loop over \<^verbatim>\<open>enumerate(agent_mapping.items())\<close>.\<close>

fun init_all ::
  "world \<Rightarrow> string dict \<Rightarrow> string dict \<Rightarrow> string list \<Rightarrow> nat
     \<Rightarrow> (string \<times> string \<times> agent_class) list \<Rightarrow> agent dict \<Rightarrow> agent dict outcome"
where
  "init_all W provider_configs api_keys provider_list i [] agents = Returns agents"
| "init_all W provider_configs api_keys provider_list i ((t, agent_name, cls) # rest) agents =
     (if length provider_list = 0 then
        Raises (Exn ZeroDivisionError ''integer modulo by zero'')
      else
        obind (new_agent W cls provider_configs api_keys
                 (provider_list ! (i mod length provider_list))) (\<lambda>a.
          init_all W provider_configs api_keys provider_list (Suc i) rest
            (dict_set agents agent_name a)))"

text \<open>\<^verbatim>\<open>if agent_type:\<close> holds for a name that is given and not empty.\<close>

definition selected :: "string option \<Rightarrow> string option" where
  "selected agent_type =
     (case agent_type of None \<Rightarrow> None | Some t \<Rightarrow> if t = [] then None else Some t)"

text \<open>Lines 42 to 104: everything before the tasks are created.\<close>

definition init_agents :: "world \<Rightarrow> provider_map \<Rightarrow> string option \<Rightarrow> agent dict outcome" where
  "init_agents W pm agent_type =
     obind (load_providers W (providers_of pm) [] []) (\<lambda>(provider_configs, api_keys).
       let provider_list = map fst provider_configs in
       case selected agent_type of
         Some t \<Rightarrow>
           (case map_of agent_mapping t of
              None \<Rightarrow> Raises (Exn ValueError (''Invalid agent_type: '' @ t))
            | Some (agent_name, cls) \<Rightarrow>
                obind (list_first provider_list) (\<lambda>provider.
                obind (new_agent W cls provider_configs api_keys provider) (\<lambda>a.
                  Returns (dict_set [] agent_name a))))
       | None \<Rightarrow> init_all W provider_configs api_keys provider_list 0 agent_mapping [])"

text \<open>
  What \<^verbatim>\<open>asyncio.gather(..., return_exceptions=True)\<close> puts in its result list for
  one task: the value it returned, or the exception it raised.
\<close>

datatype slot = Value string | Exception exn

text \<open>The outcome of the task that a slot stands for.\<close>

fun outcome_of_slot :: "slot \<Rightarrow> string outcome" where
  "outcome_of_slot (Value v) = Returns v"
| "outcome_of_slot (Exception e) = Raises e"

text \<open>
  \<^verbatim>\<open>await asyncio.gather(*tasks, return_exceptions=True)\<close>: finished when every task
  has finished, and then one slot for each task, in the order of the tasks.
\<close>

fun gather :: "string outcome list \<Rightarrow> slot list outcome" where
  "gather [] = Returns []"
| "gather (Returns v # ts) = obind (gather ts) (\<lambda>rs. Returns (Value v # rs))"
| "gather (Raises e # ts) = obind (gather ts) (\<lambda>rs. Returns (Exception e # rs))"
| "gather (Hangs # ts) = Hangs"

text \<open>
  \<^verbatim>\<open>analyze_market\<close>. The tasks share nothing they write to (only the market data
  agent touches Redis), so each task's outcome is that of its agent's \<^verbatim>\<open>analyze\<close>.
\<close>

definition analyze_market ::
  "world \<Rightarrow> string \<Rightarrow> json \<Rightarrow> price_data \<Rightarrow> bool \<Rightarrow> provider_map \<Rightarrow> string option
     \<Rightarrow> slot dict outcome" where
  "analyze_market W symbol market_data price_data show_reasoning pm agent_type =
     obind (init_agents W pm agent_type) (\<lambda>agents.
       let tasks = map (\<lambda>(name, a).
                     (name, analyze W a price_data market_data show_reasoning symbol)) agents
       in
       obind (gather (map snd tasks)) (\<lambda>results.
         Returns (dict_of (zip (map fst tasks) results))))"

text \<open>
  The provider assignment of a request: for each agent that was built, the provider name
  it was built with.
\<close>

definition provider_assignment ::
  "world \<Rightarrow> provider_map \<Rightarrow> string option \<Rightarrow> (string \<times> string) list option" where
  "provider_assignment W pm agent_type =
     (case init_agents W pm agent_type of
        Returns agents \<Rightarrow> Some (map (\<lambda>(name, a). (name, provider_name a)) agents)
      | Raises e \<Rightarrow> None
      | Hangs \<Rightarrow> None)"

section \<open>Concrete runs\<close>

text \<open>
  What pandas makes of a dict that is a table of columns, each a list of the same
  length, as \<^verbatim>\<open>pd.DataFrame(price_data)\<close> on line 209 receives it: the columns are
  its keys, and the frame is empty when there is no column or no row. The other
  shapes of price data are not used in the runs below.
\<close>

fun table_columns :: "(string \<times> json) list \<Rightarrow> (string \<times> json list) list option" where
  "table_columns [] = Some []"
| "table_columns ((k, JList xs) # kvs) = map_option (\<lambda>cs. (k, xs) # cs) (table_columns kvs)"
| "table_columns ((k, v) # kvs) = None"

fun same_length :: "(string \<times> json list) list \<Rightarrow> bool" where
  "same_length [] = True"
| "same_length ((k, xs) # cs) = list_all (\<lambda>c. length (snd c) = length xs) cs"

definition demo_DataFrame :: "json \<Rightarrow> frame outcome" where
  "demo_DataFrame j =
     (case j of
        JObj kvs \<Rightarrow>
          (case table_columns kvs of
             Some cs \<Rightarrow>
               if same_length cs \<and> ''prices'' \<notin> set (map fst cs) \<and> ''data'' \<notin> set (map fst cs)
               then Returns \<lparr>columns = map fst cs, empty = list_all (\<lambda>c. snd c = []) cs,
                             cells = cs\<rparr>
               else Raises (Exn ValueError ''not a table of columns'')
           | None \<Rightarrow> Raises (Exn ValueError ''not a table of columns''))
      | _ \<Rightarrow> Raises (Exn ValueError ''not a table of columns''))"

text \<open>
  The indicators of a frame whose closing prices are all the same float: the RSI is
  its fill value 50, the MACD and its signal line are 0, and the bands lie at the price
  once there are twenty rows and are NaN before; all up to the rounding of the float
  computation, which no run below depends on. Other frames are not used below.
\<close>

definition demo_indicators :: "frame \<Rightarrow> latest outcome" where
  "demo_indicators df =
     (case map_of (cells df) ''close'' of
        Some (JFloat c # rest) \<Rightarrow>
          if list_all (\<lambda>x. x = JFloat c) rest then
            Returns \<lparr>latest_rsi = Finite 50, latest_macd = Finite 0, latest_signal = Finite 0,
                     latest_close = Finite c,
                     latest_upper = (if 19 \<le> length rest then Finite c else NaN),
                     latest_lower = (if 19 \<le> length rest then Finite c else NaN)\<rparr>
          else Raises (Exn OtherException ''indicators not computed here'')
      | _ \<Rightarrow> Raises (Exn OtherException ''indicators not computed here''))"

text \<open>Price data with three closing prices of 100.\<close>

definition flat_prices :: price_data where
  "flat_prices = PD_Json (JObj [(''close'', JList [JFloat 100, JFloat 100, JFloat 100])])"

text \<open>
  The JSON codec on texts. \<^verbatim>\<open>json.dumps\<close> writes a text between double quotes,
  with an escape for the quote, the backslash and every character that is not printable
  ASCII; \<^verbatim>\<open>json.loads\<close> reads such a document back, and raises on one that is
  malformed. Documents that are not a string, and escapes for code points from U+0100
  on, are not decoded here: the agent stores texts only.
\<close>

definition hex_digits :: string where
  "hex_digits = ''0123456789abcdef''"

definition control_chars :: string where
  "control_chars =
     [CHR 0x00, CHR 0x01, CHR 0x02, CHR 0x03, CHR 0x04, CHR 0x05, CHR 0x06, CHR 0x07,
      CHR 0x08, CHR 0x09, CHR 0x0A, CHR 0x0B, CHR 0x0C, CHR 0x0D, CHR 0x0E, CHR 0x0F,
      CHR 0x10, CHR 0x11, CHR 0x12, CHR 0x13, CHR 0x14, CHR 0x15, CHR 0x16, CHR 0x17,
      CHR 0x18, CHR 0x19, CHR 0x1A, CHR 0x1B, CHR 0x1C, CHR 0x1D, CHR 0x1E, CHR 0x1F]"

definition short_escapes :: "(char \<times> char) list" where
  "short_escapes =
     [(CHR 0x22, CHR 0x22), (CHR 0x5C, CHR 0x5C), (CHR 0x0A, CHR ''n''), (CHR 0x0D, CHR ''r''),
      (CHR 0x09, CHR ''t''), (CHR 0x08, CHR ''b''), (CHR 0x0C, CHR ''f'')]"

definition json_escape_chr :: "char \<Rightarrow> string" where
  "json_escape_chr c =
     (case map_of short_escapes c of
        Some e \<Rightarrow> [CHR 0x5C, e]
      | None \<Rightarrow>
          if (32::nat) \<le> of_char c \<and> of_char c < (128::nat) then [c]
          else [CHR 0x5C, CHR ''u'', CHR ''0'', CHR ''0'',
                hex_digits ! (of_char c div 16), hex_digits ! (of_char c mod 16)])"

definition demo_dumps :: "string \<Rightarrow> string" where
  "demo_dumps s = [CHR 0x22] @ concat (map json_escape_chr s) @ [CHR 0x22]"

definition hex_value :: "char \<Rightarrow> nat option" where
  "hex_value c =
     map_of (zip (''0123456789abcdef'' @ ''ABCDEF'')
               ([0, 1, 2, 3, 4, 5, 6, 7, 8, 9, 10, 11, 12, 13, 14, 15]
                @ [10, 11, 12, 13, 14, 15])) c"

definition json_space :: "char \<Rightarrow> bool" where
  "json_space c = (c \<in> set [CHR 0x20, CHR 0x09, CHR 0x0A, CHR 0x0D])"

text \<open>
  The text of a JSON string from behind its opening quote: up to the closing quote,
  after which only white space may follow.
\<close>

fun json_string_body :: "string \<Rightarrow> string option" where
  "json_string_body [] = None"
| "json_string_body (x # xs) =
     (if x = CHR 0x22 then (if list_all json_space xs then Some [] else None)
      else if x = CHR 0x5C then
        (case xs of
           [] \<Rightarrow> None
         | e # ys \<Rightarrow>
             if e = CHR ''u'' then
               (case ys of
                  a # b # c # d # rest \<Rightarrow>
                    (case (hex_value a, hex_value b, hex_value c, hex_value d) of
                       (Some 0, Some 0, Some h, Some l) \<Rightarrow>
                         map_option (\<lambda>t. char_of (16 * h + l) # t) (json_string_body rest)
                     | _ \<Rightarrow> None)
                | _ \<Rightarrow> None)
             else if e = CHR ''/'' then map_option (\<lambda>t. CHR ''/'' # t) (json_string_body ys)
             else
               (case map_of (map (\<lambda>(c, e). (e, c)) short_escapes) e of
                  Some c \<Rightarrow> map_option (\<lambda>t. c # t) (json_string_body ys)
                | None \<Rightarrow> None))
      else if x \<in> set control_chars then None
      else map_option (\<lambda>t. x # t) (json_string_body xs))"

definition demo_loads :: "string \<Rightarrow> string outcome" where
  "demo_loads doc =
     (case dropWhile json_space doc of
        [] \<Rightarrow> Raises (Exn ValueError ''Expecting value'')
      | x # xs \<Rightarrow>
          if x = CHR 0x22 then
            (case json_string_body xs of
               Some t \<Rightarrow> Returns t
             | None \<Rightarrow> Raises (Exn ValueError ''Invalid JSON string''))
          else Raises (Exn ValueError ''Expecting value''))"

text \<open>
  A world in which everything works: both providers are configured and have keys, every
  client answers \<open>OK\<close>, Redis is reachable and holds nothing. Numbers are printed
  without their digits, as \<open>0.00\<close> and \<open>0.0\<close>: no run below depends on them.
\<close>

definition demo_world :: world where
  "demo_world =
     \<lparr>get_provider_config =
        (\<lambda>p. if p = ''anthropic'' then Returns ''claude-3-5-sonnet''
             else if p = ''openai'' then Returns ''gpt-4''
             else Raises (Exn ValueError (''Unknown provider: '' @ p))),
      getenv =
        (\<lambda>v. if v = ''ANTHROPIC_API_KEY'' then Some ''key-a''
             else if v = ''OPENAI_API_KEY'' then Some ''key-o'' else None),
      PROVIDER_MAP =
        (\<lambda>p. if p = ''anthropic'' then Some AnthropicProvider
             else if p = ''openai'' then Some OpenAIProvider else None),
      client_init = (\<lambda>cls model key. None),
      ainvoke = (\<lambda>own n prompt. Returns ''OK''),
      redis_from_url = (\<lambda>url. Returns ()),
      redis_get = (\<lambda>k. Returns None),
      redis_set = (\<lambda>k v ex. Returns ()),
      now_hour = ''2025-01-01-00'',
      json_loads = demo_loads,
      json_dumps = demo_dumps,
      format_f = (\<lambda>n r. ''0.00''),
      py_str = (\<lambda>v. ''0.0''),
      truediv = (\<lambda>a b. a / b),
      pd_DataFrame = demo_DataFrame,
      indicators = demo_indicators\<rparr>"

text \<open>The market data of one instrument, and that of \<open>BTC\<close>.\<close>

definition market_data_for :: "string \<Rightarrow> json \<Rightarrow> json" where
  "market_data_for ticker quote =
     JObj [(''data'', JObj [(ticker, JObj [(''quote'', JObj [(''USD'', quote)])])])]"

definition market_data_of :: "json \<Rightarrow> json" where
  "market_data_of quote = market_data_for ''BTC'' quote"

definition demo_quote :: json where
  "demo_quote =
     JObj [(''price'', JFloat 100), (''percent_change_24h'', JFloat 12),
           (''percent_change_7d'', JFloat 3), (''percent_change_30d'', JFloat (- 4)),
           (''volume_24h'', JInt 5000000), (''market_cap'', JInt 2000000000),
           (''volume_change_24h'', JFloat 1)]"

definition demo_agent :: "agent_class \<Rightarrow> provider_class option \<Rightarrow> agent" where
  "demo_agent cls pc =
     \<lparr>agent_cls = cls,
      self_provider =
        map_option (\<lambda>c. \<lparr>provider_cls = c, model_name = ''model'', api_key = ''key'',
                           owner = cls\<rparr>) pc,
      redis_client = False,
      redis_url = ''redis://localhost'',
      provider_name = (case pc of Some OpenAIProvider \<Rightarrow> ''openai'' | _ \<Rightarrow> ''anthropic'')\<rparr>"

text \<open>
  A client whose first call fails with a connection error and whose every later call
  would answer, and a client that reports a rate limit.
\<close>

definition flaky_world :: world where
  "flaky_world =
     demo_world\<lparr>ainvoke := (\<lambda>own n prompt.
       if n = 0 then Raises (Exn OtherException ''Connection error.'') else Returns ''OK'')\<rparr>"

definition quota_world :: world where
  "quota_world =
     demo_world\<lparr>ainvoke := (\<lambda>own n prompt.
       if own = SentimentAgent then Raises (Exn OtherException ''Rate limit exceeded'')
       else Returns ''OK'')\<rparr>"

text \<open>
  A world in which the Redis client is created for a URL that begins with one of the
  schemes that the client library knows, and for no other.
\<close>

definition no_redis_world :: world where
  "no_redis_world =
     demo_world\<lparr>redis_from_url := (\<lambda>url.
       if startswith url ''redis://'' \<or> startswith url ''rediss://''
          \<or> startswith url ''unix://''
       then Returns ()
       else Raises (Exn ValueError ''Redis URL must specify one of the following schemes''))\<rparr>"

text \<open>The quote of the scenario with only the four fields it names.\<close>

definition four_field_quote :: json where
  "four_field_quote =
     JObj [(''price'', JFloat 100), (''percent_change_24h'', JFloat 12),
           (''volume_24h'', JInt 5000000), (''market_cap'', JInt 2000000000)]"

text \<open>
  A model answer with two lines of reasoning, the second one after a no-break space, and
  a cached analysis.
\<close>

definition reasoning_text :: string where
  "reasoning_text =
     ''Bullish'' @ nl @ ''Because the price rose'' @ nl
     @ [CHR 0xA0] @ ''Given that volume fell'' @ nl
     @ ''Hold''"

definition cached_text :: string where
  "cached_text = ''Because it was cached'' @ nl @ ''Sell''"

text \<open>The same analysis as the cache holds it, a JSON string.\<close>

definition cached_json :: string where
  "cached_json =
     [CHR 0x22] @ ''Because it was cached'' @ [CHR 0x5C] @ ''nSell'' @ [CHR 0x22]"

definition reasoning_world :: world where
  "reasoning_world = demo_world\<lparr>ainvoke := (\<lambda>own n prompt. Returns reasoning_text)\<rparr>"

text \<open>A world in which the cache lookup fails.\<close>

definition cache_down_world :: world where
  "cache_down_world =
     demo_world\<lparr>redis_get := (\<lambda>k. Raises (Exn OtherException ''Connection refused''))\<rparr>"

text \<open>A world in which every agent fails: every model client raises.\<close>

definition failing_world :: world where
  "failing_world =
     demo_world\<lparr>ainvoke := (\<lambda>own n prompt. Raises (Exn OtherException ''service down''))\<rparr>"

text \<open>A world in which the client of the technical agent never answers.\<close>

definition hang_world :: world where
  "hang_world =
     demo_world\<lparr>ainvoke := (\<lambda>own n prompt.
       if own = TechnicalAgent then Hangs else Returns ''OK'')\<rparr>"

text \<open>The five agents that a request for the provider \<open>openai\<close> builds.\<close>

definition openai_agents :: "(string \<times> agent) list" where
  "openai_agents =
     map (\<lambda>(name, cls).
            (name, \<lparr>agent_cls = cls,
                     self_provider = Some \<lparr>provider_cls = OpenAIProvider, model_name = ''gpt-4'',
                                             api_key = ''key-o'', owner = cls\<rparr>,
                     redis_client = False, redis_url = ''redis://localhost'',
                     provider_name = ''openai''\<rparr>))
       [(''market_data_agent'', MarketDataAgent), (''sentiment_agent'', SentimentAgent),
        (''technical_agent'', TechnicalAgent), (''risk_management_agent'', RiskManagementAgent),
        (''portfolio_agent'', PortfolioAgent)]"

text \<open>
  The world in which everything works, but for the client of the technical agent, which
  reports a rate limit.
\<close>

definition technical_quota_client :: "nat \<Rightarrow> string \<Rightarrow> string outcome" where
  "technical_quota_client n prompt = Raises (Exn OtherException ''Rate limit exceeded'')"

definition technical_quota_world :: world where
  "technical_quota_world =
     demo_world\<lparr>ainvoke := (ainvoke demo_world)(TechnicalAgent := technical_quota_client)\<rparr>"

section \<open>Evaluation rules\<close>

lemma int_to_float_small [simp]:
  "\<bar>n\<bar> < 2 ^ 64 \<Longrightarrow> int_to_float n = Returns (of_int n)"
proof -
  have "(2::int) ^ 64 \<le> 2 ^ 1024 - 2 ^ 970"
    by simp
  then show "\<bar>n\<bar> < 2 ^ 64 \<Longrightarrow> int_to_float n = Returns (of_int n)"
    by (simp add: int_to_float_def)
qed

lemmas string_defs =
  nl_def quote_chr_def startswith_def startswith_any_def lower_def upper_def
  lower_chr_def upper_chr_def ascii_upper_def ascii_lower_def latin1_upper_def latin1_lower_def strip_def isspace_def indent_def

lemmas quote_defs =
  first_quote_USD_def field_f_def field_div_f_def market_data_of_def market_data_for_def demo_quote_def

section \<open>Splitting and joining lines\<close>

lemma split_chr_nonempty: "split_chr c s \<noteq> []"
  by (induction s) (auto split: list.splits)

lemma join_Cons_Cons: "join sep ((x # l) # ls) = x # join sep (l # ls)"
  by (cases ls) simp_all

lemma join_split_chr: "join [c] (split_chr c s) = s"
proof (induction s)
  case Nil
  show ?case by simp
next
  case (Cons x xs)
  obtain l ls where sp: "split_chr c xs = l # ls"
    using split_chr_nonempty [of c xs] by (cases "split_chr c xs") auto
  show ?case
  proof (cases "x = c")
    case True
    with Cons sp show ?thesis by simp
  next
    case False
    with Cons sp show ?thesis by (simp add: join_Cons_Cons)
  qed
qed

lemma split_chr_no_sep: "c \<notin> set l \<Longrightarrow> split_chr c l = [l]"
  by (induction l) auto

lemma split_chr_append: "c \<notin> set l \<Longrightarrow> split_chr c (l @ c # rest) = l # split_chr c rest"
  by (induction l) auto

lemma split_chr_join:
  "ls \<noteq> [] \<Longrightarrow> \<forall>l \<in> set ls. c \<notin> set l \<Longrightarrow> split_chr c (join [c] ls) = ls"
proof (induction ls)
  case Nil
  then show ?case by simp
next
  case (Cons p ps)
  show ?case
  proof (cases ps)
    case Nil
    with Cons.prems show ?thesis by (simp add: split_chr_no_sep)
  next
    case (Cons q qs)
    with Cons.IH Cons.prems show ?thesis by (simp add: split_chr_append)
  qed
qed

lemma split_chr_lines: "l \<in> set (split_chr c s) \<Longrightarrow> c \<notin> set l"
  by (induction s arbitrary: l) (auto split: if_splits list.splits)

section \<open>Outcomes\<close>

lemma obind_Returns_iff: "obind x f = Returns y \<longleftrightarrow> (\<exists>v. x = Returns v \<and> f v = Returns y)"
  by (cases x) simp_all

lemma market_result_analysis:
  assumes "market_result W a md sr = Returns (Inr s)" and "self_provider a = Some p"
  shows "\<exists>stats response. create_message W p (market_prompt stats sr) = Returns response
            \<and> s = market_analysis sr response"
  using assms
  by (auto simp: market_result_def obind_Returns_iff Let_def split: if_splits)


section \<open>A provider call is one call of the client\<close>

lemma create_message_single_call:
  "ainvoke W1 (owner p) 0 = ainvoke W2 (owner p) 0
   \<Longrightarrow> create_message W1 p prompt = create_message W2 p prompt"
  by (cases "provider_cls p") (simp_all add: create_message_def)

lemma create_message_Raises:
  "create_message W p prompt = Raises x
   \<Longrightarrow> \<exists>e. x = anthropic_except e \<or> x = openai_except e"
  by (cases "provider_cls p";
      auto simp: create_message_def split: outcome.splits)

section \<open>What an agent's \<^verbatim>\<open>analyze\<close> can raise\<close>

lemma try_except_Returns_handler:
  "try_except body (\<lambda>e. Returns (h e)) \<noteq> Raises x"
  by (cases body) simp_all

lemma four_agents_never_raise:
  "SentimentAgent_analyze W a pd md sr symbol \<noteq> Raises x"
  "TechnicalAgent_analyze W a pd md sr symbol \<noteq> Raises x"
  "RiskManagementAgent_analyze W a pd md sr symbol \<noteq> Raises x"
  "PortfolioAgent_analyze W a pd md sr symbol \<noteq> Raises x"
  by (simp_all add: SentimentAgent_analyze_def TechnicalAgent_analyze_def
        RiskManagementAgent_analyze_def PortfolioAgent_analyze_def try_except_Returns_handler)

lemma market_agent_raises_only_from_init:
  "MarketDataAgent_analyze W a pd md sr symbol = Raises x \<Longrightarrow> init_redis W a = Raises x"
  by (cases "init_redis W a")
     (simp_all add: MarketDataAgent_analyze_def try_except_Returns_handler)

section \<open>The cache of the market data agent\<close>

lemma create_message_redis_update:
  "create_message (W\<lparr>redis_get := g\<rparr>) p prompt = create_message W p prompt"
  "create_message (W\<lparr>redis_set := st\<rparr>) p prompt = create_message W p prompt"
  "create_message (W\<lparr>redis_from_url := f\<rparr>) p prompt = create_message W p prompt"
  by (cases "provider_cls p"; simp add: create_message_def)+

lemma field_redis_update:
  "field_f (W\<lparr>redis_get := g\<rparr>) q k n = field_f W q k n"
  "field_f (W\<lparr>redis_set := st\<rparr>) q k n = field_f W q k n"
  "field_f (W\<lparr>redis_from_url := f\<rparr>) q k n = field_f W q k n"
  "field_div_f (W\<lparr>redis_get := g\<rparr>) q k d n = field_div_f W q k d n"
  "field_div_f (W\<lparr>redis_set := st\<rparr>) q k d n = field_div_f W q k d n"
  "field_div_f (W\<lparr>redis_from_url := f\<rparr>) q k d n = field_div_f W q k d n"
  by (simp_all add: field_f_def field_div_f_def)

lemma redis_get_update_parts:
  "market_stats_of (W\<lparr>redis_get := g\<rparr>) quote = market_stats_of W quote"
  unfolding market_stats_of_def field_redis_update by simp

lemma redis_set_update_parts:
  "market_stats_of (W\<lparr>redis_set := st\<rparr>) quote = market_stats_of W quote"
  unfolding market_stats_of_def field_redis_update by simp

lemma redis_get_update_irrelevant:
  "init_redis (W\<lparr>redis_get := g\<rparr>) a = init_redis W a"
  "cache_key_of (W\<lparr>redis_get := g\<rparr>) md = cache_key_of W md"
  "market_result (W\<lparr>redis_get := g\<rparr>) a md sr = market_result W a md sr"
  unfolding init_redis_def cache_key_of_def market_result_def redis_get_update_parts
    create_message_redis_update
  by simp_all

lemma redis_set_update_irrelevant:
  "init_redis (W\<lparr>redis_set := st\<rparr>) a = init_redis W a"
  "cache_key_of (W\<lparr>redis_set := st\<rparr>) md = cache_key_of W md"
  "market_result (W\<lparr>redis_set := st\<rparr>) a md sr = market_result W a md sr"
  unfolding init_redis_def cache_key_of_def market_result_def redis_set_update_parts
    create_message_redis_update
  by simp_all

lemma demo_cache_key:
  "cache_key_of demo_world (market_data_of demo_quote) = Returns ''BTC:0.0:0.0:2025-01-01-00''"
  by (simp add: cache_key_of_def demo_world_def market_data_of_def market_data_for_def demo_quote_def)

lemma demo_init_redis:
  "init_redis demo_world (demo_agent MarketDataAgent pc)
     = Returns (demo_agent MarketDataAgent pc\<lparr>redis_client := True\<rparr>)"
  by (simp add: init_redis_def demo_world_def demo_agent_def)

lemma demo_market_result_ok:
  "market_result demo_world (demo_agent MarketDataAgent (Some OpenAIProvider)\<lparr>redis_client := True\<rparr>)
     (market_data_of demo_quote) True = Returns (Inr ''OK'')"
  by (simp add: market_result_def demo_world_def
        demo_agent_def market_data_of_def market_data_for_def demo_quote_def market_stats_of_def field_f_def
        field_div_f_def create_message_def market_analysis_def)

text \<open>The other four agents never use Redis.\<close>

lemma other_agents_do_not_touch_redis:
  "SentimentAgent_analyze (W\<lparr>redis_from_url := f, redis_get := g, redis_set := st\<rparr>) a pd md sr symbol
     = SentimentAgent_analyze W a pd md sr symbol"
  "TechnicalAgent_analyze (W\<lparr>redis_from_url := f, redis_get := g, redis_set := st\<rparr>) a pd md sr symbol
     = TechnicalAgent_analyze W a pd md sr symbol"
  "RiskManagementAgent_analyze (W\<lparr>redis_from_url := f, redis_get := g, redis_set := st\<rparr>) a pd md sr symbol
     = RiskManagementAgent_analyze W a pd md sr symbol"
  "PortfolioAgent_analyze (W\<lparr>redis_from_url := f, redis_get := g, redis_set := st\<rparr>) a pd md sr symbol
     = PortfolioAgent_analyze W a pd md sr symbol"
  unfolding SentimentAgent_analyze_def sentiment_body_def TechnicalAgent_analyze_def
    technical_body_def technical_frame_def RiskManagementAgent_analyze_def
    risk_body_def PortfolioAgent_analyze_def portfolio_body_def field_redis_update
    create_message_redis_update
  by (simp_all add: Let_def cong: if_cong option.case_cong price_data.case_cong)

section \<open>Dicts\<close>

lemma dict_set_fresh: "k \<notin> fst ` set d \<Longrightarrow> dict_set d k v = d @ [(k, v)]"
  by (induction d) auto

lemma dict_set_keys:
  "map fst (dict_set d k v) = (if k \<in> fst ` set d then map fst d else map fst d @ [k])"
  by (induction d) (force+)

lemma foldl_dict_set_distinct:
  "distinct (map fst (d @ pairs)) \<Longrightarrow> foldl (\<lambda>d (k, v). dict_set d k v) d pairs = d @ pairs"
proof (induction pairs arbitrary: d)
  case Nil
  show ?case by simp
next
  case (Cons kv pairs)
  obtain k v where kv: "kv = (k, v)" by (cases kv)
  from Cons.prems kv have fresh: "k \<notin> fst ` set d" by auto
  from Cons.prems kv have "distinct (map fst ((d @ [(k, v)]) @ pairs))" by auto
  from Cons.IH [OF this] show ?case
    by (simp add: kv dict_set_fresh [OF fresh])
qed

lemma dict_of_zip:
  "distinct ks \<Longrightarrow> length vs = length ks \<Longrightarrow> dict_of (zip ks vs) = zip ks vs"
  using foldl_dict_set_distinct [of "[]" "zip ks vs"] by (simp add: dict_of_def)

section \<open>First occurrences\<close>

lemma first_occurrences_snoc:
  "rev (remdups (rev (l @ [p])))
     = (if p \<in> set l then rev (remdups (rev l)) else rev (remdups (rev l)) @ [p])"
  by simp

lemma load_providers_keys:
  "load_providers W ps cfg ks = Returns (cfg', ks')
   \<Longrightarrow> map fst cfg = rev (remdups (rev seen))
   \<Longrightarrow> map fst cfg' = rev (remdups (rev (seen @ ps)))"
proof (induction ps arbitrary: cfg ks seen)
  case Nil
  then show ?case by simp
next
  case (Cons p ps)
  from Cons.prems(1) obtain m where m: "get_provider_config W p = Returns m"
    by (cases "get_provider_config W p") simp_all
  have "set (map fst cfg) = set seen"
    by (simp only: Cons.prems(2)) simp
  then have seen: "fst ` set cfg = set seen"
    by simp
  have keys: "map fst (dict_set cfg p m) = rev (remdups (rev (seen @ [p])))"
    by (simp only: dict_set_keys first_occurrences_snoc seen Cons.prems(2))
  from Cons.prems(1) m obtain ks1 where
    "load_providers W ps (dict_set cfg p m) ks1 = Returns (cfg', ks')"
    by (auto simp: obind_Returns_iff split: if_splits)
  from Cons.IH [OF this keys] show ?case by simp
qed


lemma first_occurrences_hd: "hd (rev (remdups (rev (p # l)))) = p \<and> rev (remdups (rev (p # l))) \<noteq> []"
proof (induction l rule: rev_induct)
  case Nil
  show ?case by simp
next
  case (snoc x l)
  have "rev (remdups (rev (p # l @ [x])))
          = (if x \<in> set (p # l) then rev (remdups (rev (p # l)))
             else rev (remdups (rev (p # l))) @ [x])"
    using first_occurrences_snoc [of "p # l" x] by simp
  with snoc show ?case by (simp del: remdups.simps rev.simps)
qed

lemma first_occurrences_distinct: "distinct l \<Longrightarrow> rev (remdups (rev l)) = l"
  by (simp add: distinct_remdups_id)

section \<open>Agents built by the orchestrator\<close>

lemma provider_init_owner:
  "provider_init W pc cls model key = Returns pr \<Longrightarrow> owner pr = cls"
  by (cases "client_init W pc model key"; cases pc) (auto simp: provider_init_def)

lemma BaseAgent_init_fields:
  assumes "BaseAgent_init W cls model key p = Returns a"
  shows "provider_name a = p \<and> agent_cls a = cls
       \<and> (\<exists>pr. self_provider a = Some pr \<and> owner pr = cls)"
proof (cases "PROVIDER_MAP W p")
  case None
  with assms show ?thesis by (simp add: BaseAgent_init_def)
next
  case (Some pc)
  with assms obtain pr where pr: "provider_init W pc cls model key = Returns pr"
    and a: "a = \<lparr>agent_cls = cls, self_provider = Some pr, redis_client = False,
                   redis_url = ''redis://localhost'', provider_name = p\<rparr>"
    by (auto simp: BaseAgent_init_def obind_Returns_iff)
  from provider_init_owner [OF pr] a show ?thesis by simp
qed

lemma new_agent_fields:
  "new_agent W cls cfg ks p = Returns a
   \<Longrightarrow> provider_name a = p \<and> agent_cls a = cls
       \<and> (\<exists>pr. self_provider a = Some pr \<and> owner pr = cls)"
  by (auto simp: new_agent_def obind_Returns_iff dest: BaseAgent_init_fields)

lemma init_all_explicit:
  assumes "init_all W cfg ks pl 0 agent_mapping [] = Returns agents"
  shows "pl \<noteq> [] \<and> (\<exists>a0 a1 a2 a3 a4.
           agents = [(''market_data_agent'', a0), (''sentiment_agent'', a1),
                     (''technical_agent'', a2), (''risk_management_agent'', a3),
                     (''portfolio_agent'', a4)]
           \<and> new_agent W MarketDataAgent cfg ks (pl ! (0 mod length pl)) = Returns a0
           \<and> new_agent W SentimentAgent cfg ks (pl ! (Suc 0 mod length pl)) = Returns a1
           \<and> new_agent W TechnicalAgent cfg ks (pl ! (Suc (Suc 0) mod length pl)) = Returns a2
           \<and> new_agent W RiskManagementAgent cfg ks (pl ! (Suc (Suc (Suc 0)) mod length pl))
               = Returns a3
           \<and> new_agent W PortfolioAgent cfg ks (pl ! (Suc (Suc (Suc (Suc 0))) mod length pl))
               = Returns a4)"
proof -
  have pl: "pl \<noteq> []"
    using assms by (auto simp: agent_mapping_def)
  from assms pl show ?thesis
    by (auto simp: agent_mapping_def obind_Returns_iff)
qed

lemma init_agents_all:
  assumes "init_agents W pm agent_type = Returns agents" and "selected agent_type = None"
  shows "\<exists>cfg ks. load_providers W (providers_of pm) [] [] = Returns (cfg, ks)
           \<and> cfg \<noteq> []
           \<and> map fst agents = map (fst \<circ> snd) agent_mapping
           \<and> map (agent_cls \<circ> snd) agents = map (snd \<circ> snd) agent_mapping
           \<and> map (provider_name \<circ> snd) agents
               = map (\<lambda>i. map fst cfg ! (i mod length cfg)) [0..<5]
           \<and> (\<forall>(n, a) \<in> set agents. \<exists>pr. self_provider a = Some pr \<and> owner pr = agent_cls a)"
proof -
  from assms obtain cfg ks where
    lp: "load_providers W (providers_of pm) [] [] = Returns (cfg, ks)"
    and ia: "init_all W cfg ks (map fst cfg) 0 agent_mapping [] = Returns agents"
    by (auto simp: init_agents_def obind_Returns_iff)
  from init_all_explicit [OF ia] obtain a0 a1 a2 a3 a4 where
    ne: "map fst cfg \<noteq> []"
    and ag: "agents = [(''market_data_agent'', a0), (''sentiment_agent'', a1),
                     (''technical_agent'', a2), (''risk_management_agent'', a3),
                     (''portfolio_agent'', a4)]"
    and n0: "new_agent W MarketDataAgent cfg ks (map fst cfg ! (0 mod length (map fst cfg))) = Returns a0"
    and n1: "new_agent W SentimentAgent cfg ks (map fst cfg ! (Suc 0 mod length (map fst cfg))) = Returns a1"
    and n2: "new_agent W TechnicalAgent cfg ks (map fst cfg ! (Suc (Suc 0) mod length (map fst cfg))) = Returns a2"
    and n3: "new_agent W RiskManagementAgent cfg ks (map fst cfg ! (Suc (Suc (Suc 0)) mod length (map fst cfg))) = Returns a3"
    and n4: "new_agent W PortfolioAgent cfg ks (map fst cfg ! (Suc (Suc (Suc (Suc 0))) mod length (map fst cfg))) = Returns a4"
    by blast
  have idx: "[0..<5] = [0, Suc 0, Suc (Suc 0), Suc (Suc (Suc 0)), Suc (Suc (Suc (Suc 0)))]"
    by (simp add: upt_rec eval_nat_numeral)
  note f = new_agent_fields [OF n0] new_agent_fields [OF n1] new_agent_fields [OF n2]
    new_agent_fields [OF n3] new_agent_fields [OF n4]
  have names: "map fst agents = map (fst \<circ> snd) agent_mapping"
    by (simp add: ag agent_mapping_def)
  have classes: "map (agent_cls \<circ> snd) agents = map (snd \<circ> snd) agent_mapping"
    using f by (simp add: ag agent_mapping_def)
  have provs: "map (provider_name \<circ> snd) agents
               = map (\<lambda>i. map fst cfg ! (i mod length cfg)) [0..<5]"
  proof -
    from f have
      "provider_name a0 = map fst cfg ! (0 mod length cfg)"
      "provider_name a1 = map fst cfg ! (Suc 0 mod length cfg)"
      "provider_name a2 = map fst cfg ! (Suc (Suc 0) mod length cfg)"
      "provider_name a3 = map fst cfg ! (Suc (Suc (Suc 0)) mod length cfg)"
      "provider_name a4 = map fst cfg ! (Suc (Suc (Suc (Suc 0))) mod length cfg)"
      by simp_all
    then show ?thesis
      unfolding idx ag by (simp only: list.map comp_apply snd_conv)
  qed
  have own: "\<forall>(n, a) \<in> set agents. \<exists>pr. self_provider a = Some pr \<and> owner pr = agent_cls a"
    using f by (simp add: ag)
  from lp ne names classes provs own show ?thesis by auto
qed

lemma init_agents_single:
  assumes "init_agents W pm agent_type = Returns agents" and "selected agent_type = Some t"
  shows "\<exists>cfg ks name cls a. load_providers W (providers_of pm) [] [] = Returns (cfg, ks)
           \<and> cfg \<noteq> []
           \<and> map_of agent_mapping t = Some (name, cls)
           \<and> agents = [(name, a)] \<and> agent_cls a = cls
           \<and> provider_name a = fst (hd cfg)
           \<and> (\<exists>pr. self_provider a = Some pr \<and> owner pr = cls)"
proof -
  from assms obtain cfg ks name cls p a where
    lp: "load_providers W (providers_of pm) [] [] = Returns (cfg, ks)"
    and m: "map_of agent_mapping t = Some (name, cls)"
    and p: "list_first (map fst cfg) = Returns p"
    and a: "new_agent W cls cfg ks p = Returns a"
    and ag: "agents = [(name, a)]"
    by (auto simp: init_agents_def obind_Returns_iff split: option.splits)
  from p have ne: "cfg \<noteq> []" and hd: "p = fst (hd cfg)"
    by (cases cfg; simp)+
  from new_agent_fields [OF a] lp m ag ne hd show ?thesis by auto
qed

lemmas init_defs =
  init_agents_def selected_def agent_mapping_def new_agent_def dict_get_def BaseAgent_init_def
  provider_init_def env_key_def demo_world_def

lemma demo_init_two:
  "init_agents demo_world (PM_List [''openai'', ''anthropic'']) None
     = Returns (map (\<lambda>(name, cls, pc, model, key, p).
                  (name, \<lparr>agent_cls = cls,
                           self_provider = Some \<lparr>provider_cls = pc, model_name = model,
                                                   api_key = key, owner = cls\<rparr>,
                           redis_client = False, redis_url = ''redis://localhost'',
                           provider_name = p\<rparr>))
         [(''market_data_agent'', MarketDataAgent, OpenAIProvider, ''gpt-4'', ''key-o'', ''openai''),
          (''sentiment_agent'', SentimentAgent, AnthropicProvider, ''claude-3-5-sonnet'', ''key-a'', ''anthropic''),
          (''technical_agent'', TechnicalAgent, OpenAIProvider, ''gpt-4'', ''key-o'', ''openai''),
          (''risk_management_agent'', RiskManagementAgent, AnthropicProvider, ''claude-3-5-sonnet'', ''key-a'', ''anthropic''),
          (''portfolio_agent'', PortfolioAgent, OpenAIProvider, ''gpt-4'', ''key-o'', ''openai'')])"
  by (simp add: init_defs Let_def mod_Suc)

lemma demo_init_risk:
  "init_agents demo_world (PM_List [''openai'', ''anthropic'']) (Some ''risk'')
     = Returns [(''risk_management_agent'',
                 \<lparr>agent_cls = RiskManagementAgent,
                  self_provider = Some \<lparr>provider_cls = OpenAIProvider, model_name = ''gpt-4'',
                                         api_key = ''key-o'', owner = RiskManagementAgent\<rparr>,
                  redis_client = False, redis_url = ''redis://localhost'',
                  provider_name = ''openai''\<rparr>)]"
  by (simp add: init_defs Let_def mod_Suc)

section \<open>Gathering the tasks\<close>

lemma outcome_of_slot_iff:
  "outcome_of_slot a = Returns v \<longleftrightarrow> a = Value v"
  "outcome_of_slot a = Raises e \<longleftrightarrow> a = Exception e"
  "Returns v = outcome_of_slot a \<longleftrightarrow> a = Value v"
  "Raises e = outcome_of_slot a \<longleftrightarrow> a = Exception e"
  "outcome_of_slot a \<noteq> Hangs"
  "Hangs \<noteq> outcome_of_slot a"
  by (cases a; auto)+

lemma gather_Returns_iff: "gather ts = Returns rs \<longleftrightarrow> ts = map outcome_of_slot rs"
proof (induction ts arbitrary: rs)
  case Nil
  show ?case by auto
next
  case (Cons t ts)
  show ?case
  proof (cases t)
    case (Returns v)
    with Cons show ?thesis
      by (cases rs) (auto simp: obind_Returns_iff outcome_of_slot_iff)
  next
    case (Raises e)
    with Cons show ?thesis
      by (cases rs) (auto simp: obind_Returns_iff outcome_of_slot_iff)
  next
    case Hangs
    then show ?thesis
      by (cases rs) (auto simp: outcome_of_slot_iff)
  qed
qed

lemma gather_not_Raises: "gather ts \<noteq> Raises e"
proof (induction ts)
  case Nil
  show ?case by simp
next
  case (Cons t ts)
  then show ?case by (cases t; cases "gather ts") simp_all
qed

lemma gather_Hangs_iff: "gather ts = Hangs \<longleftrightarrow> Hangs \<in> set ts"
proof (induction ts)
  case Nil
  show ?case by simp
next
  case (Cons t ts)
  then show ?case
    using gather_not_Raises [of ts] by (cases t; cases "gather ts") auto
qed

lemma zip_lookup:
  "map (\<lambda>(n, a). F a) kvs = map G rs
   \<Longrightarrow> map_option G (map_of (zip (map fst kvs) rs) n) = map_option F (map_of kvs n)"
proof (induction kvs arbitrary: rs)
  case Nil
  then show ?case by simp
next
  case (Cons kv kvs)
  then show ?case by (cases rs; cases kv) auto
qed

lemma analyze_market_unfold:
  assumes "init_agents W pm agent_type = Returns agents"
  shows "analyze_market W symbol md pd sr pm agent_type
           = obind (gather (map (\<lambda>(n, a). analyze W a pd md sr symbol) agents))
               (\<lambda>rs. Returns (dict_of (zip (map fst agents) rs)))"
proof -
  have 1: "snd \<circ> (\<lambda>(name, a). (name, analyze W a pd md sr symbol))
             = (\<lambda>(n, a). analyze W a pd md sr symbol)"
    by (auto simp: fun_eq_iff)
  have 2: "fst \<circ> (\<lambda>(name, a). (name, analyze W a pd md sr symbol)) = fst"
    by (auto simp: fun_eq_iff)
  show ?thesis
    by (simp add: analyze_market_def assms Let_def 1 2)
qed

lemma init_agents_members:
  assumes "init_agents W pm agent_type = Returns agents"
  shows "distinct (map fst agents)
       \<and> (\<forall>(n, a) \<in> set agents.
            (\<exists>t. (t, n, agent_cls a) \<in> set agent_mapping)
            \<and> (\<exists>pr. self_provider a = Some pr \<and> owner pr = agent_cls a))"
proof (cases "selected agent_type")
  case None
  from assms None obtain cfg ks where
    ia: "init_all W cfg ks (map fst cfg) 0 agent_mapping [] = Returns agents"
    by (auto simp: init_agents_def obind_Returns_iff)
  from init_all_explicit [OF ia] obtain a0 a1 a2 a3 a4 where
    ag: "agents = [(''market_data_agent'', a0), (''sentiment_agent'', a1),
                     (''technical_agent'', a2), (''risk_management_agent'', a3),
                     (''portfolio_agent'', a4)]"
    and n0: "new_agent W MarketDataAgent cfg ks (map fst cfg ! (0 mod length (map fst cfg))) = Returns a0"
    and n1: "new_agent W SentimentAgent cfg ks (map fst cfg ! (Suc 0 mod length (map fst cfg))) = Returns a1"
    and n2: "new_agent W TechnicalAgent cfg ks (map fst cfg ! (Suc (Suc 0) mod length (map fst cfg))) = Returns a2"
    and n3: "new_agent W RiskManagementAgent cfg ks (map fst cfg ! (Suc (Suc (Suc 0)) mod length (map fst cfg))) = Returns a3"
    and n4: "new_agent W PortfolioAgent cfg ks (map fst cfg ! (Suc (Suc (Suc (Suc 0))) mod length (map fst cfg))) = Returns a4"
    by blast
  note f = new_agent_fields [OF n0] new_agent_fields [OF n1] new_agent_fields [OF n2]
    new_agent_fields [OF n3] new_agent_fields [OF n4]
  have d: "distinct (map fst agents)" by (simp add: ag)
  have m: "\<forall>(n, a) \<in> set agents.
            (\<exists>t. (t, n, agent_cls a) \<in> set agent_mapping)
            \<and> (\<exists>pr. self_provider a = Some pr \<and> owner pr = agent_cls a)"
    using f by (simp add: ag agent_mapping_def)
  from d m show ?thesis by blast
next
  case (Some t)
  from init_agents_single [OF assms Some] obtain name cls a where
    m: "map_of agent_mapping t = Some (name, cls)"
    and ag: "agents = [(name, a)]" and c: "agent_cls a = cls"
    and pr: "\<exists>pr. self_provider a = Some pr \<and> owner pr = cls"
    by blast
  from m have "(t, name, cls) \<in> set agent_mapping" by (rule map_of_SomeD)
  with ag c pr show ?thesis by auto
qed

lemma analyze_market_results:
  assumes init: "init_agents W pm agent_type = Returns agents"
  shows "analyze_market W symbol md pd sr pm agent_type = Returns results
         \<longleftrightarrow> map fst results = map fst agents
             \<and> map (outcome_of_slot \<circ> snd) results
                 = map (\<lambda>(n, a). analyze W a pd md sr symbol) agents"
proof -
  have d: "distinct (map fst agents)"
    using init_agents_members [OF init] by blast
  show ?thesis
  proof
    assume "analyze_market W symbol md pd sr pm agent_type = Returns results"
    then obtain rs where g: "gather (map (\<lambda>(n, a). analyze W a pd md sr symbol) agents) = Returns rs"
      and r: "results = dict_of (zip (map fst agents) rs)"
      by (auto simp: analyze_market_unfold [OF init] obind_Returns_iff)
    from g have m: "map (\<lambda>(n, a). analyze W a pd md sr symbol) agents = map outcome_of_slot rs"
      by (simp add: gather_Returns_iff)
    then have len: "length rs = length (map fst agents)"
      by (metis length_map)
    from r have "results = zip (map fst agents) rs"
      by (simp add: dict_of_zip [OF d len])
    with m len show "map fst results = map fst agents
             \<and> map (outcome_of_slot \<circ> snd) results
                 = map (\<lambda>(n, a). analyze W a pd md sr symbol) agents"
      by (simp add: map_fst_zip map_snd_zip flip: map_map)
  next
    assume a: "map fst results = map fst agents
             \<and> map (outcome_of_slot \<circ> snd) results
                 = map (\<lambda>(n, a). analyze W a pd md sr symbol) agents"
    then have g: "gather (map (\<lambda>(n, a). analyze W a pd md sr symbol) agents)
                    = Returns (map snd results)"
      by (simp add: gather_Returns_iff)
    have z: "zip (map fst agents) (map snd results) = results"
      using a by (metis zip_map_fst_snd)
    have "length (map snd results) = length (map fst agents)"
      using a by (metis length_map)
    from dict_of_zip [OF d this] have "dict_of results = results"
      by (simp only: z)
    then show "analyze_market W symbol md pd sr pm agent_type = Returns results"
      using g by (simp add: analyze_market_unfold [OF init] z)
  qed
qed

section \<open>Runs in the concrete worlds\<close>

lemmas world_defs =
  demo_world_def no_redis_world_def failing_world_def hang_world_def demo_DataFrame_def
  demo_indicators_def flat_prices_def

lemmas analyze_defs =
  analyze_def MarketDataAgent_analyze_def init_redis_def cache_key_of_def market_compute_def
  market_result_def market_stats_of_def market_analysis_def
  SentimentAgent_analyze_def sentiment_body_def TechnicalAgent_analyze_def technical_body_def
  technical_frame_def RiskManagementAgent_analyze_def risk_body_def PortfolioAgent_analyze_def
  portfolio_body_def create_message_def openai_except_def anthropic_except_def
  provider_error_def

lemma failing_init:
  "init_agents failing_world (PM_Str ''openai'') None = Returns openai_agents"
  by (simp add: init_defs world_defs openai_agents_def Let_def mod_Suc)

lemma hang_init:
  "init_agents hang_world (PM_Str ''openai'') None = Returns openai_agents"
  by (simp add: init_defs world_defs openai_agents_def Let_def mod_Suc)

lemma failing_tasks:
  "map (\<lambda>(n, a). analyze failing_world a flat_prices (market_data_of demo_quote) False ''BTC'')
     openai_agents
   = [Returns ''Error analyzing market data: [OpenAI] OpenAI response generation failed: service down'',
      Returns ''Error analyzing sentiment: [OpenAI] OpenAI response generation failed: service down'',
      Returns ''Error analyzing technical indicators: [OpenAI] OpenAI response generation failed: service down'',
      Returns ''Error analyzing risks: [OpenAI] OpenAI response generation failed: service down'',
      Returns ''Error generating portfolio advice: [OpenAI] OpenAI response generation failed: service down'']"
  by (simp add: openai_agents_def analyze_defs world_defs quote_defs string_defs)

lemma hang_tasks:
  "map (\<lambda>(n, a). analyze hang_world a flat_prices (market_data_of demo_quote) False ''BTC'')
     openai_agents
   = [Returns ''OK'', Returns ''OK'', Hangs, Returns ''OK'', Returns ''OK'']"
  by (simp add: openai_agents_def analyze_defs world_defs quote_defs string_defs
        analysis_lines_def reasoning_markers_def)

section \<open>Changing the client of one agent\<close>

lemma create_message_other_client:
  "owner p \<noteq> cls
   \<Longrightarrow> create_message (W\<lparr>ainvoke := (ainvoke W)(cls := client)\<rparr>) p prompt
       = create_message W p prompt"
  by (cases "provider_cls p") (simp_all add: create_message_def)

lemma field_ainvoke_update:
  "field_f (W\<lparr>ainvoke := f\<rparr>) q k n = field_f W q k n"
  "field_div_f (W\<lparr>ainvoke := f\<rparr>) q k d n = field_div_f W q k d n"
  by (simp_all add: field_f_def field_div_f_def)

lemma market_parts_ainvoke_update:
  "market_stats_of (W\<lparr>ainvoke := f\<rparr>) quote = market_stats_of W quote"
  "init_redis (W\<lparr>ainvoke := f\<rparr>) a = init_redis W a"
  "cache_key_of (W\<lparr>ainvoke := f\<rparr>) md = cache_key_of W md"
  unfolding market_stats_of_def init_redis_def cache_key_of_def field_ainvoke_update
  by simp_all

lemma init_redis_provider:
  "init_redis W a = Returns a' \<Longrightarrow> self_provider a' = self_provider a"
  by (auto simp: init_redis_def obind_Returns_iff split: if_splits)

lemma market_result_other_client:
  assumes "\<forall>pr. self_provider a = Some pr \<longrightarrow> owner pr \<noteq> cls"
  shows "market_result (W\<lparr>ainvoke := (ainvoke W)(cls := client)\<rparr>) a md sr
           = market_result W a md sr"
proof (cases "self_provider a")
  case None
  then show ?thesis
    unfolding market_result_def market_parts_ainvoke_update
    by (simp add: Let_def cong: if_cong)
next
  case (Some pr)
  with assms have "owner pr \<noteq> cls" by simp
  then show ?thesis
    unfolding market_result_def market_parts_ainvoke_update
    by (simp add: Some create_message_other_client Let_def cong: if_cong)
qed

lemma market_compute_other_client:
  assumes "\<forall>pr. self_provider a = Some pr \<longrightarrow> owner pr \<noteq> cls"
  shows "market_compute (W\<lparr>ainvoke := (ainvoke W)(cls := client)\<rparr>) a md sr k
           = market_compute W a md sr k"
  unfolding market_compute_def market_result_other_client [OF assms]
  by (simp cong: sum.case_cong)

lemma analyze_other_client:
  assumes "\<forall>pr. self_provider a = Some pr \<longrightarrow> owner pr \<noteq> cls"
  shows "analyze (W\<lparr>ainvoke := (ainvoke W)(cls := client)\<rparr>) a pd md sr symbol
           = analyze W a pd md sr symbol"
proof -
  let ?W = "W\<lparr>ainvoke := (ainvoke W)(cls := client)\<rparr>"
  have cm: "create_message ?W pr prompt = create_message W pr prompt"
    if "self_provider a = Some pr" for pr prompt
    using assms that by (simp add: create_message_other_client)
  have market: "MarketDataAgent_analyze ?W a pd md sr symbol
                  = MarketDataAgent_analyze W a pd md sr symbol"
  proof (cases "init_redis W a")
    case (Returns a')
    from init_redis_provider [OF Returns] assms
    have "\<forall>pr. self_provider a' = Some pr \<longrightarrow> owner pr \<noteq> cls" by simp
    from market_compute_other_client [OF this] show ?thesis
      unfolding MarketDataAgent_analyze_def market_parts_ainvoke_update
      by (simp add: Returns cong: option.case_cong if_cong)
  next
    case (Raises e)
    then show ?thesis
      unfolding MarketDataAgent_analyze_def market_parts_ainvoke_update by simp
  next
    case Hangs
    then show ?thesis
      unfolding MarketDataAgent_analyze_def market_parts_ainvoke_update by simp
  qed
  have others: "SentimentAgent_analyze ?W a pd md sr symbol
                  = SentimentAgent_analyze W a pd md sr symbol"
    "TechnicalAgent_analyze ?W a pd md sr symbol = TechnicalAgent_analyze W a pd md sr symbol"
    "RiskManagementAgent_analyze ?W a pd md sr symbol
       = RiskManagementAgent_analyze W a pd md sr symbol"
    "PortfolioAgent_analyze ?W a pd md sr symbol = PortfolioAgent_analyze W a pd md sr symbol"
    unfolding SentimentAgent_analyze_def sentiment_body_def TechnicalAgent_analyze_def
      technical_body_def technical_frame_def RiskManagementAgent_analyze_def risk_body_def
      PortfolioAgent_analyze_def portfolio_body_def field_ainvoke_update
    by (cases "self_provider a";
        simp add: cm Let_def cong: if_cong price_data.case_cong)+
  from market others show ?thesis
    by (cases "agent_cls a") (simp_all add: analyze_def)
qed

lemma load_providers_ainvoke_update:
  "load_providers (W\<lparr>ainvoke := f\<rparr>) ps cfg ks = load_providers W ps cfg ks"
proof (induction ps arbitrary: cfg ks)
  case Nil
  show ?case by simp
next
  case (Cons p ps)
  show ?case
    by (cases "get_provider_config W p") (simp_all add: Cons env_key_def)
qed

lemma new_agent_ainvoke_update:
  "new_agent (W\<lparr>ainvoke := f\<rparr>) c cfg ks p = new_agent W c cfg ks p"
  unfolding new_agent_def BaseAgent_init_def provider_init_def
  by (simp cong: option.case_cong)

lemma init_all_ainvoke_update:
  "init_all (W\<lparr>ainvoke := f\<rparr>) cfg ks pl i m agents = init_all W cfg ks pl i m agents"
proof (induction m arbitrary: i agents)
  case Nil
  show ?case by simp
next
  case (Cons e m)
  obtain t n c where e: "e = (t, n, c)" by (cases e)
  show ?case
    by (simp add: e Cons new_agent_ainvoke_update)
qed

lemma init_agents_ainvoke_update:
  "init_agents (W\<lparr>ainvoke := f\<rparr>) pm agent_type = init_agents W pm agent_type"
  unfolding init_agents_def load_providers_ainvoke_update init_all_ainvoke_update
    new_agent_ainvoke_update
  by simp

lemma outcome_of_slot_inj: "outcome_of_slot x = outcome_of_slot y \<Longrightarrow> x = y"
  by (cases x; cases y) simp_all

lemma analyze_market_lookup:
  assumes init: "init_agents W pm agent_type = Returns agents"
    and res: "analyze_market W symbol md pd sr pm agent_type = Returns results"
  shows "map_option outcome_of_slot (map_of results name)
           = map_option (\<lambda>a. analyze W a pd md sr symbol) (map_of agents name)"
proof -
  from analyze_market_results [OF init] res have
    k: "map fst results = map fst agents"
    and m: "map (outcome_of_slot \<circ> snd) results
              = map (\<lambda>(n, a). analyze W a pd md sr symbol) agents"
    by blast+
  from m have "map (\<lambda>(n, a). analyze W a pd md sr symbol) agents
                 = map outcome_of_slot (map snd results)"
    by simp
  from zip_lookup [of "\<lambda>a. analyze W a pd md sr symbol" agents outcome_of_slot
                      "map snd results" name, OF this]
  have "map_option outcome_of_slot (map_of (zip (map fst agents) (map snd results)) name)
          = map_option (\<lambda>a. analyze W a pd md sr symbol) (map_of agents name)" .
  moreover have "zip (map fst agents) (map snd results) = results"
    using k by (metis zip_map_fst_snd)
  ultimately show ?thesis by simp
qed

lemma demo_init_openai:
  "init_agents demo_world (PM_Str ''openai'') None = Returns openai_agents"
  by (simp add: init_defs world_defs openai_agents_def Let_def mod_Suc)

lemma demo_run:
  "analyze_market demo_world ''BTC'' (market_data_of demo_quote) flat_prices False
     (PM_Str ''openai'') None
   = Returns [(''market_data_agent'', Value ''OK''), (''sentiment_agent'', Value ''OK''),
              (''technical_agent'', Value ''OK''), (''risk_management_agent'', Value ''OK''),
              (''portfolio_agent'', Value ''OK'')]"
  unfolding analyze_market_unfold [OF demo_init_openai]
  by (simp add: openai_agents_def analyze_defs world_defs quote_defs string_defs
        analysis_lines_def reasoning_markers_def dict_of_def)

lemma technical_quota_run:
  "analyze_market technical_quota_world ''BTC'' (market_data_of demo_quote) flat_prices
     False (PM_Str ''openai'') None
   = Returns [(''market_data_agent'', Value ''OK''), (''sentiment_agent'', Value ''OK''),
              (''technical_agent'',
               Value ''Error analyzing technical indicators: [OpenAI] OpenAI rate limit exceeded''),
              (''risk_management_agent'', Value ''OK''),
              (''portfolio_agent'', Value ''OK'')]"
proof -
  have i: "init_agents technical_quota_world (PM_Str ''openai'') None = Returns openai_agents"
    unfolding technical_quota_world_def init_agents_ainvoke_update by (rule demo_init_openai)
  show ?thesis
    unfolding analyze_market_unfold [OF i]
    by (simp add: openai_agents_def analyze_defs world_defs technical_quota_world_def
          technical_quota_client_def quote_defs string_defs
          analysis_lines_def reasoning_markers_def dict_of_def)
qed

section \<open>The market data agent after a miss and after a hit\<close>

lemma market_stats_fields:
  assumes "market_stats_of W quote = Returns stats"
  shows "\<exists>vp vc. getitem quote ''price'' = Returns vp
           \<and> getitem quote ''percent_change_24h'' = Returns vc"
  using assms
  by (auto simp: market_stats_of_def field_f_def obind_Returns_iff)

lemma cache_key_for:
  assumes "market_stats_of W quote = Returns stats"
  shows "\<exists>k. cache_key_of W (market_data_for ticker quote) = Returns k"
proof -
  from market_stats_fields [OF assms] obtain vp vc where
    "getitem quote ''price'' = Returns vp" "getitem quote ''percent_change_24h'' = Returns vc"
    by blast
  then show ?thesis
    by (simp add: cache_key_of_def market_data_for_def)
qed

lemma market_result_for:
  assumes "self_provider a = Some p"
    and "market_stats_of W quote = Returns stats"
    and "create_message W p (market_prompt stats sr) = Returns raw"
  shows "market_result W a (market_data_for ticker quote) sr
           = Returns (Inr (market_analysis sr raw))"
  using assms
  by (simp add: market_result_def market_data_for_def)

lemma kept_lines:
  "split_chr (CHR 0x0A) (market_analysis False raw)
     = (if filter (\<lambda>line. \<not> startswith_any (strip line) reasoning_markers)
              (split_chr (CHR 0x0A) raw) = [] then [[]]
        else filter (\<lambda>line. \<not> startswith_any (strip line) reasoning_markers)
               (split_chr (CHR 0x0A) raw))"
proof -
  let ?kept = "filter (\<lambda>line. \<not> startswith_any (strip line) reasoning_markers)
                 (split_chr (CHR 0x0A) raw)"
  have lines: "\<forall>l \<in> set ?kept. CHR 0x0A \<notin> set l"
    by (auto dest: split_chr_lines)
  have b: "market_analysis False raw = join nl ?kept"
    by (simp add: market_analysis_def analysis_lines_def)
  show ?thesis
  proof (cases "?kept = []")
    case True
    then show ?thesis by (simp add: b)
  next
    case False
    then show ?thesis
      using split_chr_join [OF False lines] by (simp add: b nl_def)
  qed
qed

lemma reasoning_kept:
  "filter (\<lambda>line. \<not> startswith_any (strip line) reasoning_markers)
     (split_chr (CHR 0x0A) reasoning_text) = [''Bullish'', ''Hold'']"
  by (simp add: reasoning_text_def reasoning_markers_def string_defs)

section \<open>Numbers too large for a float\<close>

lemma too_large_to_format:
  "fmt_arg (JInt (2 ^ 1024)) = Raises (Exn OverflowError ''int too large to convert to float'')"
  by (simp add: int_to_float_def)


section \<open>The claims\<close>

text \<open>
  C1. Once the agents of a request are built (the agent set and the provider assignment
  are resolved), \<^verbatim>\<open>analyze_market\<close> raises nothing; when every agent's task finishes,
  by returning or by raising, it returns a mapping whose keys are the names of the
  agents that were built; and these are the five canonical names when no agent type is
  given, the one name of the given type otherwise.
\<close>

theorem result_keys_are_the_agent_set:
  assumes "init_agents W pm agent_type = Returns agents"
  shows "(\<forall>e. analyze_market W symbol md pd sr pm agent_type \<noteq> Raises e)
       \<and> ((\<forall>(name, a) \<in> set agents. analyze W a pd md sr symbol \<noteq> Hangs)
            \<longrightarrow> (\<exists>results. analyze_market W symbol md pd sr pm agent_type = Returns results
                            \<and> map fst results = map fst agents))
       \<and> map fst agents
           = (case selected agent_type of
                None \<Rightarrow> map (fst \<circ> snd) agent_mapping
              | Some t \<Rightarrow> map (fst \<circ> snd) (filter (\<lambda>entry. fst entry = t) agent_mapping))"
proof -
  let ?tasks = "map (\<lambda>(n, a). analyze W a pd md sr symbol) agents"
  have never: "analyze_market W symbol md pd sr pm agent_type \<noteq> Raises e" for e
    using gather_not_Raises [of ?tasks]
    by (cases "gather ?tasks") (simp_all add: analyze_market_unfold [OF assms])
  have returns: "\<exists>results. analyze_market W symbol md pd sr pm agent_type = Returns results
                            \<and> map fst results = map fst agents"
    if "\<forall>(name, a) \<in> set agents. analyze W a pd md sr symbol \<noteq> Hangs"
  proof -
    from that have "Hangs \<notin> set ?tasks" by auto
    then have "gather ?tasks \<noteq> Hangs" by (simp add: gather_Hangs_iff)
    with gather_not_Raises [of ?tasks] obtain rs where "gather ?tasks = Returns rs"
      by (cases "gather ?tasks") auto
    then have "analyze_market W symbol md pd sr pm agent_type
                 = Returns (dict_of (zip (map fst agents) rs))"
      by (simp add: analyze_market_unfold [OF assms])
    then show ?thesis
      using analyze_market_results [OF assms] by blast
  qed
  have keys: "map fst agents
           = (case selected agent_type of
                None \<Rightarrow> map (fst \<circ> snd) agent_mapping
              | Some t \<Rightarrow> map (fst \<circ> snd) (filter (\<lambda>entry. fst entry = t) agent_mapping))"
  proof (cases "selected agent_type")
    case None
    from init_agents_all [OF assms None] show ?thesis by (auto simp: None)
  next
    case (Some t)
    from init_agents_single [OF assms Some] obtain name cls a where
      m: "map_of agent_mapping t = Some (name, cls)" and ag: "agents = [(name, a)]"
      by blast
    from m have "map (fst \<circ> snd) (filter (\<lambda>entry. fst entry = t) agent_mapping) = [name]"
      by (auto simp: agent_mapping_def split: if_splits)
    with ag show ?thesis by (simp add: Some)
  qed
  from never returns keys show ?thesis by blast
qed


theorem result_keys_are_the_agent_set_witness:
  "\<exists>results. analyze_market failing_world ''BTC'' (market_data_of demo_quote) flat_prices
                 False (PM_Str ''openai'') None = Returns results
      \<and> map fst results = [''market_data_agent'', ''sentiment_agent'', ''technical_agent'',
                             ''risk_management_agent'', ''portfolio_agent'']"
proof -
  have "Hangs \<notin> set (map (\<lambda>(n, a). analyze failing_world a flat_prices
                                  (market_data_of demo_quote) False ''BTC'') openai_agents)"
    by (simp only: failing_tasks) simp
  then have h: "\<forall>(name, a) \<in> set openai_agents.
           analyze failing_world a flat_prices (market_data_of demo_quote) False ''BTC''
             \<noteq> Hangs"
    by force
  have k: "map fst openai_agents = [''market_data_agent'', ''sentiment_agent'', ''technical_agent'',
                             ''risk_management_agent'', ''portfolio_agent'']"
    by (simp add: openai_agents_def)
  from result_keys_are_the_agent_set [OF failing_init, of "''BTC''" "market_data_of demo_quote"
        flat_prices False] h k
  show ?thesis by auto
qed


text \<open>
  C2. Two runs of a request that differ only in the client of one agent, say in what the
  technical agent's provider call does, and that both return: every entry of the result
  but that agent's is the same in both. A failure of one agent's provider call neither
  appears in nor changes another agent's entry.
\<close>

theorem fault_isolation:
  assumes r1: "analyze_market W symbol md pd sr pm agent_type = Returns r1"
    and r2: "analyze_market (W\<lparr>ainvoke := (ainvoke W)(cls := client)\<rparr>)
               symbol md pd sr pm agent_type = Returns r2"
    and other: "\<forall>t. (t, name, cls) \<notin> set agent_mapping"
  shows "map_of r1 name = map_of r2 name"
proof -
  let ?W2 = "W\<lparr>ainvoke := (ainvoke W)(cls := client)\<rparr>"
  from r1 obtain agents where init: "init_agents W pm agent_type = Returns agents"
    by (auto simp: analyze_market_def obind_Returns_iff)
  then have init2: "init_agents ?W2 pm agent_type = Returns agents"
    by (simp only: init_agents_ainvoke_update)
  have same: "map_option (\<lambda>a. analyze ?W2 a pd md sr symbol) (map_of agents name)
                = map_option (\<lambda>a. analyze W a pd md sr symbol) (map_of agents name)"
  proof (cases "map_of agents name")
    case None
    then show ?thesis by simp
  next
    case (Some a)
    then have "(name, a) \<in> set agents" by (rule map_of_SomeD)
    with init_agents_members [OF init] obtain t pr where
      "(t, name, agent_cls a) \<in> set agent_mapping"
      and pr: "self_provider a = Some pr" "owner pr = agent_cls a"
      by blast
    with other have "agent_cls a \<noteq> cls" by blast
    with pr have "\<forall>p. self_provider a = Some p \<longrightarrow> owner p \<noteq> cls" by simp
    from analyze_other_client [OF this] show ?thesis by (simp add: Some)
  qed
  have "map_option outcome_of_slot (map_of r1 name)
          = map_option outcome_of_slot (map_of r2 name)"
    using analyze_market_lookup [OF init r1, of name]
      analyze_market_lookup [OF init2 r2, of name] same
    by simp
  then show ?thesis
    by (cases "map_of r1 name"; cases "map_of r2 name") (auto dest: outcome_of_slot_inj)
qed

theorem fault_isolation_witness:
  "map_of [(''market_data_agent'', Value ''OK''), (''sentiment_agent'', Value ''OK''),
           (''technical_agent'', Value ''OK''), (''risk_management_agent'', Value ''OK''),
           (''portfolio_agent'', Value ''OK'')] ''sentiment_agent''
   = map_of [(''market_data_agent'', Value ''OK''), (''sentiment_agent'', Value ''OK''),
             (''technical_agent'',
              Value ''Error analyzing technical indicators: [OpenAI] OpenAI rate limit exceeded''),
             (''risk_management_agent'', Value ''OK''),
             (''portfolio_agent'', Value ''OK'')] ''sentiment_agent''
   \<and> analyze_market demo_world ''BTC'' (market_data_of demo_quote) flat_prices False
       (PM_Str ''openai'') None
     = Returns [(''market_data_agent'', Value ''OK''), (''sentiment_agent'', Value ''OK''),
              (''technical_agent'', Value ''OK''), (''risk_management_agent'', Value ''OK''),
              (''portfolio_agent'', Value ''OK'')]
   \<and> analyze_market technical_quota_world ''BTC'' (market_data_of demo_quote)
       flat_prices False (PM_Str ''openai'') None
     = Returns [(''market_data_agent'', Value ''OK''), (''sentiment_agent'', Value ''OK''),
              (''technical_agent'',
               Value ''Error analyzing technical indicators: [OpenAI] OpenAI rate limit exceeded''),
              (''risk_management_agent'', Value ''OK''),
              (''portfolio_agent'', Value ''OK'')]"
proof -
  have o: "\<forall>t. (t, ''sentiment_agent'', TechnicalAgent) \<notin> set agent_mapping"
    by (simp add: agent_mapping_def)
  from fault_isolation [OF demo_run technical_quota_run [unfolded technical_quota_world_def] o]
    demo_run technical_quota_run
  show ?thesis by blast
qed

text \<open>
  C3. The claim: with N agents and a provider list of length M, agent \<open>i\<close> is assigned
  \<open>providers[i mod M]\<close>, and a single requested agent gets the first provider. The code
  takes its provider list from the keys of \<^verbatim>\<open>provider_configs\<close>, where a repeated
  name has one entry. As amended: whenever the agents are built, the provider list is
  not empty; the five agents, in their canonical order, are assigned
  \<open>D[i mod length D]\<close>, where \<open>D\<close> is the provider list with every later repetition of
  a name removed, which is the provider list itself when its names are distinct; and a
  single requested agent is assigned the first provider of the list.
\<close>

theorem round_robin_over_distinct_providers:
  assumes "init_agents W pm agent_type = Returns agents"
  shows "providers_of pm \<noteq> []
     \<and> (distinct (providers_of pm)
          \<longrightarrow> rev (remdups (rev (providers_of pm))) = providers_of pm)
     \<and> (case selected agent_type of
          None \<Rightarrow>
            map fst agents = map (fst \<circ> snd) agent_mapping
            \<and> map (provider_name \<circ> snd) agents
                = map (\<lambda>i. rev (remdups (rev (providers_of pm)))
                              ! (i mod length (rev (remdups (rev (providers_of pm))))))
                    [0..<5]
        | Some t \<Rightarrow>
            (\<exists>name a. agents = [(name, a)] \<and> provider_name a = providers_of pm ! 0))"
proof -
  let ?ps = "providers_of pm"
  let ?D = "rev (remdups (rev ?ps))"
  have keys: "map fst cfg = ?D"
    if "load_providers W ?ps [] [] = Returns (cfg, ks)" for cfg ks
    using load_providers_keys [OF that, of "[]"] by simp
  have ne: "?ps \<noteq> []" and branch: "case selected agent_type of
          None \<Rightarrow>
            map fst agents = map (fst \<circ> snd) agent_mapping
            \<and> map (provider_name \<circ> snd) agents
                = map (\<lambda>i. ?D ! (i mod length ?D)) [0..<5]
        | Some t \<Rightarrow>
            (\<exists>name a. agents = [(name, a)] \<and> provider_name a = ?ps ! 0)"
  proof -
    show "?ps \<noteq> []"
    proof (cases "selected agent_type")
      case None
      from init_agents_all [OF assms None] keys show ?thesis by fastforce
    next
      case (Some t)
      from init_agents_single [OF assms Some] keys show ?thesis by fastforce
    qed
    then obtain p rest where ps: "?ps = p # rest" by (cases ?ps) auto
    show "case selected agent_type of
          None \<Rightarrow>
            map fst agents = map (fst \<circ> snd) agent_mapping
            \<and> map (provider_name \<circ> snd) agents
                = map (\<lambda>i. ?D ! (i mod length ?D)) [0..<5]
        | Some t \<Rightarrow>
            (\<exists>name a. agents = [(name, a)] \<and> provider_name a = ?ps ! 0)"
    proof (cases "selected agent_type")
      case None
      from init_agents_all [OF assms None] obtain cfg ks where
        lp: "load_providers W ?ps [] [] = Returns (cfg, ks)"
        and n: "map fst agents = map (fst \<circ> snd) agent_mapping"
        and pn: "map (provider_name \<circ> snd) agents
               = map (\<lambda>i. map fst cfg ! (i mod length cfg)) [0..<5]"
        by blast
      have len: "length cfg = length ?D"
        using keys [OF lp] by (metis length_map)
      from n pn show ?thesis
        by (simp only: None option.case keys [OF lp] len)
    next
      case (Some t)
      from init_agents_single [OF assms Some] obtain cfg ks name a where
        lp: "load_providers W ?ps [] [] = Returns (cfg, ks)"
        and c: "cfg \<noteq> []"
        and ag: "agents = [(name, a)]"
        and pn: "provider_name a = fst (hd cfg)"
        by blast
      from c have "fst (hd cfg) = hd (map fst cfg)" by (simp add: hd_map)
      also have "\<dots> = hd ?D" by (simp only: keys [OF lp])
      also have "\<dots> = p" using first_occurrences_hd [of p rest] by (simp only: ps)
      finally have "provider_name a = ?ps ! 0" using pn by (simp add: ps)
      with ag show ?thesis by (simp add: Some)
    qed
  qed
  from ne branch show ?thesis
    by (simp add: first_occurrences_distinct)
qed


theorem round_robin_over_distinct_providers_witness:
  "(\<exists>agents. init_agents demo_world (PM_List [''openai'', ''anthropic'']) None = Returns agents
      \<and> distinct [''openai'', ''anthropic'']
      \<and> map fst agents = [''market_data_agent'', ''sentiment_agent'', ''technical_agent'',
                           ''risk_management_agent'', ''portfolio_agent'']
      \<and> map (provider_name \<circ> snd) agents
          = [''openai'', ''anthropic'', ''openai'', ''anthropic'', ''openai''])
   \<and> (\<exists>name a. init_agents demo_world (PM_List [''openai'', ''anthropic'']) (Some ''risk'')
                   = Returns [(name, a)]
        \<and> provider_name a = ''openai'')"
proof -
  obtain agents where
    a: "init_agents demo_world (PM_List [''openai'', ''anthropic'']) None = Returns agents"
    using demo_init_two by blast
  have idx: "[0..<5] = [0, Suc 0, Suc (Suc 0), Suc (Suc (Suc 0)), Suc (Suc (Suc (Suc 0)))]"
    by (simp add: upt_rec eval_nat_numeral)
  have all: "map fst agents = [''market_data_agent'', ''sentiment_agent'', ''technical_agent'',
                           ''risk_management_agent'', ''portfolio_agent'']
      \<and> map (provider_name \<circ> snd) agents
          = [''openai'', ''anthropic'', ''openai'', ''anthropic'', ''openai'']"
    using round_robin_over_distinct_providers [OF a]
    by (simp add: selected_def agent_mapping_def idx mod_Suc)
  obtain single where
    s: "init_agents demo_world (PM_List [''openai'', ''anthropic'']) (Some ''risk'') = Returns single"
    using demo_init_risk by blast
  have one: "\<exists>name a. single = [(name, a)] \<and> provider_name a = ''openai''"
    using round_robin_over_distinct_providers [OF s]
    by (simp add: selected_def)
  from a all s one show ?thesis by auto
qed


text \<open>
  C3, as stated, fails for the provider list \<open>openai, openai, anthropic\<close>: the second
  agent is assigned \<open>anthropic\<close>, and \<open>providers[1 mod 3]\<close> is \<open>openai\<close>.
\<close>

theorem round_robin_counterexample:
  "provider_assignment demo_world (PM_List [''openai'', ''openai'', ''anthropic'']) None
     = Some [(''market_data_agent'', ''openai''), (''sentiment_agent'', ''anthropic''),
             (''technical_agent'', ''openai''), (''risk_management_agent'', ''anthropic''),
             (''portfolio_agent'', ''openai'')]
   \<and> [''openai'', ''openai'', ''anthropic''] ! (1 mod 3) = ''openai''"
  by (simp add: provider_assignment_def init_defs Let_def mod_Suc)


text \<open>
  C4. The claim: whatever a step of an agent's \<^verbatim>\<open>analyze\<close> raises, cache access
  included, is caught and returned as an error text, and \<^verbatim>\<open>analyze\<close> raises nothing.
  The four agents without a cache do so, and so does the market data agent from the
  cache lookup on. Its first step, creating the Redis client, stands before the
  \<^verbatim>\<open>try\<close>: with a Redis URL that the client library rejects, \<^verbatim>\<open>analyze\<close> raises
  the library's exception instead of returning an error text.
\<close>

theorem market_agent_redis_init_escapes:
  "MarketDataAgent_analyze no_redis_world
     (demo_agent MarketDataAgent (Some AnthropicProvider)\<lparr>redis_url := ''localhost:6379''\<rparr>)
     (PD_Json JNull) (market_data_of demo_quote) False ''BTC''
   = Raises (Exn ValueError ''Redis URL must specify one of the following schemes'')"
  by (simp add: MarketDataAgent_analyze_def init_redis_def no_redis_world_def demo_world_def
        demo_agent_def startswith_def)

text \<open>
  C5. The claim: in every agent, with the reasoning flag off, the lines of the model's
  answer that begin with one of the four markers are removed and the others kept; with
  the flag on the answer is returned as it is. Only the market data agent filters; it
  tests each line after stripping it, and it filters what the provider answers, not
  what the cache holds. As amended: let the market data agent have its Redis client and
  a provider, let the market statistics be formatted and the provider answer the
  prompt. After a cache miss, with a store that works, \<^verbatim>\<open>analyze\<close> returns the answer
  as it is when the flag is on, and when the flag is off the text whose lines are, in
  order and verbatim, the lines of the answer that do not start with a marker once
  stripped (the empty text if there is none). After a cache hit it returns the cached
  analysis as it is, whatever the flag. The other four agents return the same with the
  flag on or off.
\<close>

theorem reasoning_filter_in_market_agent:
  assumes "init_redis W a = Returns a'"
    and "self_provider a = Some p"
    and "market_stats_of W quote = Returns stats"
    and "create_message W p (market_prompt stats sr) = Returns raw"
    and "c \<noteq> []"
    and "json_loads W c = Returns cached"
  shows "(\<exists>s. MarketDataAgent_analyze
              (W\<lparr>redis_get := (\<lambda>key. Returns None), redis_set := (\<lambda>key v ex. Returns ())\<rparr>)
              a pd (market_data_for ticker quote) sr symbol = Returns s
            \<and> (if sr then s = raw
               else split_chr (CHR 0x0A) s
                    = (if filter (\<lambda>line. \<not> startswith_any (strip line) reasoning_markers)
                             (split_chr (CHR 0x0A) raw) = [] then [[]]
                       else filter (\<lambda>line. \<not> startswith_any (strip line) reasoning_markers)
                              (split_chr (CHR 0x0A) raw))))
       \<and> MarketDataAgent_analyze (W\<lparr>redis_get := (\<lambda>key. Returns (Some c))\<rparr>)
            a pd (market_data_for ticker quote) sr symbol = Returns cached
       \<and> SentimentAgent_analyze W a pd md True symbol = SentimentAgent_analyze W a pd md False symbol
       \<and> TechnicalAgent_analyze W a pd md True symbol = TechnicalAgent_analyze W a pd md False symbol
       \<and> RiskManagementAgent_analyze W a pd md True symbol
           = RiskManagementAgent_analyze W a pd md False symbol
       \<and> PortfolioAgent_analyze W a pd md True symbol
           = PortfolioAgent_analyze W a pd md False symbol"
proof -
  let ?md = "market_data_for ticker quote"
  from cache_key_for [OF assms(3)] obtain k where k: "cache_key_of W ?md = Returns k"
    by blast
  have p': "self_provider a' = Some p"
    using init_redis_provider [OF assms(1)] assms(2) by simp
  have mr: "market_result W a' ?md sr = Returns (Inr (market_analysis sr raw))"
    by (rule market_result_for [OF p' assms(3) assms(4)])
  have miss: "MarketDataAgent_analyze
              (W\<lparr>redis_get := (\<lambda>key. Returns None), redis_set := (\<lambda>key v ex. Returns ())\<rparr>)
              a pd ?md sr symbol = Returns (market_analysis sr raw)"
    using assms(1) k mr
    by (simp add: MarketDataAgent_analyze_def market_compute_def redis_get_update_irrelevant
          redis_set_update_irrelevant)
  have shape: "if sr then market_analysis sr raw = raw
               else split_chr (CHR 0x0A) (market_analysis sr raw)
                    = (if filter (\<lambda>line. \<not> startswith_any (strip line) reasoning_markers)
                             (split_chr (CHR 0x0A) raw) = [] then [[]]
                       else filter (\<lambda>line. \<not> startswith_any (strip line) reasoning_markers)
                              (split_chr (CHR 0x0A) raw))"
  proof (cases sr)
    case True
    then show ?thesis by (simp add: market_analysis_def)
  next
    case False
    then show ?thesis using kept_lines [of raw] by simp
  qed
  have hit: "MarketDataAgent_analyze (W\<lparr>redis_get := (\<lambda>key. Returns (Some c))\<rparr>)
            a pd ?md sr symbol = Returns cached"
    using assms(1) k assms(5) assms(6)
    by (simp add: MarketDataAgent_analyze_def redis_get_update_irrelevant)
  have others: "SentimentAgent_analyze W a pd md True symbol = SentimentAgent_analyze W a pd md False symbol"
    "TechnicalAgent_analyze W a pd md True symbol = TechnicalAgent_analyze W a pd md False symbol"
    "RiskManagementAgent_analyze W a pd md True symbol
       = RiskManagementAgent_analyze W a pd md False symbol"
    "PortfolioAgent_analyze W a pd md True symbol
       = PortfolioAgent_analyze W a pd md False symbol"
    by (simp_all add: SentimentAgent_analyze_def sentiment_body_def TechnicalAgent_analyze_def
        technical_body_def RiskManagementAgent_analyze_def
        risk_body_def PortfolioAgent_analyze_def portfolio_body_def)
  from miss shape have "\<exists>s. MarketDataAgent_analyze
              (W\<lparr>redis_get := (\<lambda>key. Returns None), redis_set := (\<lambda>key v ex. Returns ())\<rparr>)
              a pd ?md sr symbol = Returns s
            \<and> (if sr then s = raw
               else split_chr (CHR 0x0A) s
                    = (if filter (\<lambda>line. \<not> startswith_any (strip line) reasoning_markers)
                             (split_chr (CHR 0x0A) raw) = [] then [[]]
                       else filter (\<lambda>line. \<not> startswith_any (strip line) reasoning_markers)
                              (split_chr (CHR 0x0A) raw)))"
    by blast
  with hit others show ?thesis by blast
qed


theorem reasoning_filter_in_market_agent_witness:
  "(\<exists>s. MarketDataAgent_analyze
          (reasoning_world\<lparr>redis_get := (\<lambda>key. Returns None),
                            redis_set := (\<lambda>key v ex. Returns ())\<rparr>)
          (demo_agent MarketDataAgent (Some OpenAIProvider)) (PD_Json JNull)
          (market_data_for ''BTC'' demo_quote) False ''BTC'' = Returns s
        \<and> split_chr (CHR 0x0A) s = [''Bullish'', ''Hold''])
   \<and> MarketDataAgent_analyze (reasoning_world\<lparr>redis_get := (\<lambda>key. Returns (Some cached_json))\<rparr>)
        (demo_agent MarketDataAgent (Some OpenAIProvider)) (PD_Json JNull)
        (market_data_for ''BTC'' demo_quote) False ''BTC''
      = Returns (''Because it was cached'' @ nl @ ''Sell'')"
proof -
  let ?a = "demo_agent MarketDataAgent (Some OpenAIProvider)"
  let ?p = "\<lparr>provider_cls = OpenAIProvider, model_name = ''model'', api_key = ''key'',
              owner = MarketDataAgent\<rparr>"
  have i: "init_redis reasoning_world ?a = Returns (?a\<lparr>redis_client := True\<rparr>)"
    by (simp add: init_redis_def reasoning_world_def demo_world_def demo_agent_def)
  have p: "self_provider ?a = Some ?p"
    by (simp add: demo_agent_def)
  obtain stats where st: "market_stats_of reasoning_world demo_quote = Returns stats"
    by (simp add: market_stats_of_def field_f_def field_div_f_def demo_quote_def
          reasoning_world_def demo_world_def)
  have cm: "create_message reasoning_world ?p (market_prompt stats False) = Returns reasoning_text"
    by (simp add: create_message_def reasoning_world_def demo_world_def)
  have c: "cached_json \<noteq> []"
    by (simp add: cached_json_def)
  have j: "json_loads reasoning_world cached_json = Returns cached_text"
    by (simp add: reasoning_world_def demo_world_def demo_loads_def cached_json_def
          cached_text_def json_space_def control_chars_def short_escapes_def nl_def)
  from reasoning_filter_in_market_agent [OF i p st cm c j, of "PD_Json JNull" "''BTC''" "''BTC''"]
  show ?thesis
    by (simp add: reasoning_kept cached_text_def)
qed

text \<open>
  C5, as stated, fails for the sentiment agent: with the flag off it returns the
  answer with its line that begins with \<open>Because\<close>.
\<close>

theorem sentiment_keeps_reasoning_lines_counterexample:
  "SentimentAgent_analyze reasoning_world (demo_agent SentimentAgent (Some OpenAIProvider))
     (PD_Json JNull) (market_data_of demo_quote) False ''BTC''
   = Returns (''Bullish'' @ nl @ ''Because the price rose'' @ nl
              @ [CHR 0xA0] @ ''Given that volume fell'' @ nl @ ''Hold'')
   \<and> startswith ''Because the price rose'' ''Because''"
  by (simp add: SentimentAgent_analyze_def sentiment_body_def reasoning_world_def
        reasoning_text_def demo_world_def demo_agent_def quote_defs create_message_def
        startswith_def)


text \<open>
  C6. The claim: for the snapshot with price 100.00, 24h change 12.0, 24h volume 5000000
  and market cap 2000000000, and no provider, the risk agent returns a text that begins
  with \<open>Risk Level: HIGH\<close>, the portfolio agent one that begins with
  \<open>Recommended Action: TAKE PROFIT\<close>, the sentiment agent one that begins with
  \<open>Market Sentiment: BULLISH\<close>. Each agent formats further fields before it reaches its
  fallback. As amended: the three results are these when the quote holds the four values
  and, in its fields \<open>percent_change_7d\<close>, \<open>percent_change_30d\<close> and
  \<open>volume_change_24h\<close>, numbers that \<^verbatim>\<open>:.2f\<close> can format (a float, a bool, or an
  int in the range of the floats), and the agent's provider is \<open>None\<close>.
\<close>

theorem local_fallback_with_all_fields:
  assumes "self_provider a = None"
    and "first_quote_USD md = Returns q"
    and "getitem q ''price'' = Returns (JFloat 100)"
    and "getitem q ''percent_change_24h'' = Returns (JFloat 12)"
    and "getitem q ''volume_24h'' = Returns (JInt 5000000)"
    and "getitem q ''market_cap'' = Returns (JInt 2000000000)"
    and "getitem q ''percent_change_7d'' = Returns v7" and "fmt_arg v7 = Returns c7"
    and "getitem q ''percent_change_30d'' = Returns v30" and "fmt_arg v30 = Returns c30"
    and "getitem q ''volume_change_24h'' = Returns vc" and "fmt_arg vc = Returns cvc"
  shows "(\<exists>rest. RiskManagementAgent_analyze W a pd md sr symbol
                   = Returns (''Risk Level: HIGH'' @ rest))
       \<and> (\<exists>rest. PortfolioAgent_analyze W a pd md sr symbol
                   = Returns (''Recommended Action: TAKE PROFIT'' @ rest))
       \<and> (\<exists>rest. SentimentAgent_analyze W a pd md sr symbol
                   = Returns (''Market Sentiment: BULLISH'' @ rest))"
  using assms
  by (simp add: RiskManagementAgent_analyze_def risk_body_def PortfolioAgent_analyze_def
        portfolio_body_def SentimentAgent_analyze_def sentiment_body_def field_f_def
        field_div_f_def upper_def upper_chr_def ascii_upper_def ascii_lower_def)

theorem local_fallback_with_all_fields_witness:
  "(\<exists>rest. RiskManagementAgent_analyze demo_world (demo_agent RiskManagementAgent None)
             (PD_Json JNull) (market_data_of demo_quote) False ''BTC''
           = Returns (''Risk Level: HIGH'' @ rest))
   \<and> (\<exists>rest. PortfolioAgent_analyze demo_world (demo_agent PortfolioAgent None)
             (PD_Json JNull) (market_data_of demo_quote) False ''BTC''
           = Returns (''Recommended Action: TAKE PROFIT'' @ rest))
   \<and> (\<exists>rest. SentimentAgent_analyze demo_world (demo_agent SentimentAgent None)
             (PD_Json JNull) (market_data_of demo_quote) False ''BTC''
           = Returns (''Market Sentiment: BULLISH'' @ rest))"
proof -
  have q: "first_quote_USD (market_data_of demo_quote) = Returns demo_quote"
    by (simp add: first_quote_USD_def market_data_of_def market_data_for_def)
  have n: "self_provider (demo_agent c None) = None" for c
    by (simp add: demo_agent_def)
  have f: "getitem demo_quote ''price'' = Returns (JFloat 100)"
    "getitem demo_quote ''percent_change_24h'' = Returns (JFloat 12)"
    "getitem demo_quote ''volume_24h'' = Returns (JInt 5000000)"
    "getitem demo_quote ''market_cap'' = Returns (JInt 2000000000)"
    "getitem demo_quote ''percent_change_7d'' = Returns (JFloat 3)"
    "fmt_arg (JFloat 3) = Returns 3"
    "getitem demo_quote ''percent_change_30d'' = Returns (JFloat (- 4))"
    "fmt_arg (JFloat (- 4)) = Returns (- 4)"
    "getitem demo_quote ''volume_change_24h'' = Returns (JFloat 1)"
    "fmt_arg (JFloat 1) = Returns 1"
    by (simp_all add: demo_quote_def)
  show ?thesis
    using local_fallback_with_all_fields
            [OF n q f, of demo_world RiskManagementAgent "PD_Json JNull" False "''BTC''"]
      local_fallback_with_all_fields
            [OF n q f, of demo_world PortfolioAgent "PD_Json JNull" False "''BTC''"]
      local_fallback_with_all_fields
            [OF n q f, of demo_world SentimentAgent "PD_Json JNull" False "''BTC''"]
    by blast
qed

text \<open>
  C6, as stated, fails for the snapshot that has the four named fields only: each of
  the three agents returns the error text of the \<^verbatim>\<open>KeyError\<close> for the first field it
  misses.
\<close>

theorem four_field_snapshot_counterexample:
  "RiskManagementAgent_analyze demo_world (demo_agent RiskManagementAgent None)
     (PD_Json JNull) (market_data_of four_field_quote) False ''BTC''
     = Returns (''Error analyzing risks: '' @ quote_chr @ ''volume_change_24h'' @ quote_chr)
   \<and> PortfolioAgent_analyze demo_world (demo_agent PortfolioAgent None)
     (PD_Json JNull) (market_data_of four_field_quote) False ''BTC''
     = Returns (''Error generating portfolio advice: '' @ quote_chr @ ''percent_change_7d''
                @ quote_chr)
   \<and> SentimentAgent_analyze demo_world (demo_agent SentimentAgent None)
     (PD_Json JNull) (market_data_of four_field_quote) False ''BTC''
     = Returns (''Error analyzing sentiment: '' @ quote_chr @ ''percent_change_7d'' @ quote_chr)"
  by (simp add: RiskManagementAgent_analyze_def risk_body_def PortfolioAgent_analyze_def
        portfolio_body_def SentimentAgent_analyze_def sentiment_body_def field_f_def
        field_div_f_def first_quote_USD_def market_data_of_def market_data_for_def
        four_field_quote_def demo_world_def)

text \<open>
  C7. The claim: an exception of the cache's get or set is treated as a miss, the agent
  recomputes and returns its normal result, and no error result comes from the cache.
  The market data agent, the only one with a cache, has both calls inside its
  \<^verbatim>\<open>try\<close>. As amended: when the Redis client is there, the cache key can be built
  and the analysis is \<open>s\<close>, a miss makes the agent compute, store and return \<open>s\<close>; an
  exception raised by the lookup, or by the store after a miss, is caught and the agent
  returns the error text with the exception's message in place of \<open>s\<close>.
\<close>

theorem cache_fault_becomes_error_text:
  assumes "init_redis W a = Returns a'"
    and "cache_key_of W md = Returns k"
    and "market_result W a' md sr = Returns (Inr s)"
    and "redis_set W k (json_dumps W s) 3600 = Returns ()"
  shows "MarketDataAgent_analyze (W\<lparr>redis_get := (\<lambda>key. Returns None)\<rparr>) a pd md sr symbol
           = Returns s
       \<and> MarketDataAgent_analyze (W\<lparr>redis_get := (\<lambda>key. Raises e)\<rparr>) a pd md sr symbol
           = Returns (''Error analyzing market data: '' @ str_exn e)
       \<and> MarketDataAgent_analyze
            (W\<lparr>redis_get := (\<lambda>key. Returns None), redis_set := (\<lambda>key v ex. Raises e)\<rparr>)
            a pd md sr symbol
           = Returns (''Error analyzing market data: '' @ str_exn e)"
proof -
  have miss: "MarketDataAgent_analyze (W\<lparr>redis_get := (\<lambda>key. Returns None)\<rparr>) a pd md sr symbol
           = Returns s"
    using assms
    by (simp add: MarketDataAgent_analyze_def market_compute_def redis_get_update_irrelevant)
  have get: "MarketDataAgent_analyze (W\<lparr>redis_get := (\<lambda>key. Raises e)\<rparr>) a pd md sr symbol
           = Returns (''Error analyzing market data: '' @ str_exn e)"
    using assms
    by (simp add: MarketDataAgent_analyze_def redis_get_update_irrelevant)
  have put: "MarketDataAgent_analyze
            (W\<lparr>redis_get := (\<lambda>key. Returns None), redis_set := (\<lambda>key v ex. Raises e)\<rparr>)
            a pd md sr symbol
           = Returns (''Error analyzing market data: '' @ str_exn e)"
    using assms
    by (simp add: MarketDataAgent_analyze_def market_compute_def redis_get_update_irrelevant
          redis_set_update_irrelevant)
  from miss get put show ?thesis by blast
qed

theorem cache_fault_becomes_error_text_witness:
  "MarketDataAgent_analyze (demo_world\<lparr>redis_get := (\<lambda>key. Returns None)\<rparr>)
     (demo_agent MarketDataAgent (Some OpenAIProvider)) (PD_Json JNull)
     (market_data_of demo_quote) True ''BTC'' = Returns ''OK''
   \<and> MarketDataAgent_analyze
       (demo_world\<lparr>redis_get := (\<lambda>key. Raises (Exn OtherException ''Connection refused''))\<rparr>)
       (demo_agent MarketDataAgent (Some OpenAIProvider)) (PD_Json JNull)
       (market_data_of demo_quote) True ''BTC''
     = Returns ''Error analyzing market data: Connection refused''
   \<and> MarketDataAgent_analyze
       (demo_world\<lparr>redis_get := (\<lambda>key. Returns None),
                    redis_set := (\<lambda>key v ex. Raises (Exn OtherException ''Connection refused''))\<rparr>)
       (demo_agent MarketDataAgent (Some OpenAIProvider)) (PD_Json JNull)
       (market_data_of demo_quote) True ''BTC''
     = Returns ''Error analyzing market data: Connection refused''"
proof -
  have st: "redis_set demo_world ''BTC:0.0:0.0:2025-01-01-00'' (json_dumps demo_world ''OK'') 3600
              = Returns ()"
    by (simp add: demo_world_def)
  show ?thesis
    using cache_fault_becomes_error_text
            [OF demo_init_redis demo_cache_key demo_market_result_ok st,
             of "PD_Json JNull" "''BTC''" "Exn OtherException ''Connection refused''"]
    by simp
qed

text \<open>
  C7, as stated, fails when the lookup raises: the agent returns the error text, where
  with a working cache and a miss it returns the model's answer.
\<close>

theorem cache_fault_is_not_a_miss_counterexample:
  "MarketDataAgent_analyze cache_down_world (demo_agent MarketDataAgent (Some OpenAIProvider))
     (PD_Json JNull) (market_data_of demo_quote) True ''BTC''
   = Returns ''Error analyzing market data: Connection refused''
   \<and> MarketDataAgent_analyze demo_world (demo_agent MarketDataAgent (Some OpenAIProvider))
     (PD_Json JNull) (market_data_of demo_quote) True ''BTC''
   = Returns ''OK''"
  by (simp add: MarketDataAgent_analyze_def init_redis_def cache_key_of_def market_compute_def
        market_result_def cache_down_world_def demo_world_def
        demo_agent_def market_data_of_def market_data_for_def demo_quote_def market_stats_of_def field_f_def
        field_div_f_def create_message_def market_analysis_def)

text \<open>
  C8. The claim: a provider call that fails with a connection error is retried, one that
  fails with a quota error goes to a fallback provider, any other error ends the call.
  \<^verbatim>\<open>create_message\<close> classifies the client's exception and raises it; the agent
  returns it as its error text. With a client that fails once with a connection error
  and would answer every later call, the sentiment agent returns the connection error:
  there was no second call. With a client that reports a rate limit, it returns the
  quota error, although the other clients answer.
\<close>

theorem provider_error_not_retried:
  "SentimentAgent_analyze flaky_world (demo_agent SentimentAgent (Some AnthropicProvider))
     (PD_Json JNull) (market_data_of demo_quote) False ''BTC''
   = Returns ''Error analyzing sentiment: [Anthropic] Connection error.''
   \<and> ainvoke flaky_world SentimentAgent 1 prompt = Returns ''OK''
   \<and> SentimentAgent_analyze quota_world (demo_agent SentimentAgent (Some AnthropicProvider))
     (PD_Json JNull) (market_data_of demo_quote) False ''BTC''
   = Returns ''Error analyzing sentiment: [Anthropic] Rate limit exceeded''
   \<and> ainvoke quota_world PortfolioAgent 0 prompt = Returns ''OK''"
  by (simp add: SentimentAgent_analyze_def sentiment_body_def flaky_world_def quota_world_def
        demo_world_def demo_agent_def quote_defs create_message_def anthropic_except_def
        provider_error_def string_defs)

text \<open>
  C9. The claim: a deadline for the whole request bounds the fan-out; a task still
  running when it expires is abandoned and its slot reports a timeout, the finished
  slots keep their results. The code sets no deadline: it awaits
  \<^verbatim>\<open>asyncio.gather\<close> of all tasks. As amended: once the agents are built,
  \<^verbatim>\<open>analyze_market\<close> returns only when every task has finished, and then each slot
  holds what its own task returned or raised; if some task never finishes,
  \<^verbatim>\<open>analyze_market\<close> never returns, and no slot is ever replaced by a timeout.
\<close>

theorem gather_waits_for_every_task:
  assumes "init_agents W pm agent_type = Returns agents"
  shows "if \<exists>(name, a) \<in> set agents. analyze W a pd md sr symbol = Hangs
         then analyze_market W symbol md pd sr pm agent_type = Hangs
         else \<exists>results. analyze_market W symbol md pd sr pm agent_type = Returns results
                \<and> map fst results = map fst agents
                \<and> map (outcome_of_slot \<circ> snd) results
                    = map (\<lambda>(name, a). analyze W a pd md sr symbol) agents"
proof (cases "\<exists>(name, a) \<in> set agents. analyze W a pd md sr symbol = Hangs")
  case True
  then have "Hangs \<in> set (map (\<lambda>(n, a). analyze W a pd md sr symbol) agents)"
    by force
  then have "gather (map (\<lambda>(n, a). analyze W a pd md sr symbol) agents) = Hangs"
    by (simp only: gather_Hangs_iff)
  then have "analyze_market W symbol md pd sr pm agent_type = Hangs"
    by (simp add: analyze_market_unfold [OF assms])
  with True show ?thesis by simp
next
  case False
  then have "Hangs \<notin> set (map (\<lambda>(n, a). analyze W a pd md sr symbol) agents)"
    by force
  then have "gather (map (\<lambda>(n, a). analyze W a pd md sr symbol) agents) \<noteq> Hangs"
    by (simp only: gather_Hangs_iff) simp
  with gather_not_Raises [of "map (\<lambda>(n, a). analyze W a pd md sr symbol) agents"]
  obtain rs where "gather (map (\<lambda>(n, a). analyze W a pd md sr symbol) agents) = Returns rs"
    by (cases "gather (map (\<lambda>(n, a). analyze W a pd md sr symbol) agents)") auto
  then have "analyze_market W symbol md pd sr pm agent_type
               = Returns (dict_of (zip (map fst agents) rs))"
    by (simp add: analyze_market_unfold [OF assms])
  then have "\<exists>results. analyze_market W symbol md pd sr pm agent_type = Returns results
                \<and> map fst results = map fst agents
                \<and> map (outcome_of_slot \<circ> snd) results
                    = map (\<lambda>(name, a). analyze W a pd md sr symbol) agents"
    using analyze_market_results [OF assms] by blast
  with False show ?thesis by simp
qed

theorem gather_waits_for_every_task_witness:
  "analyze_market hang_world ''BTC'' (market_data_of demo_quote) flat_prices
     False (PM_Str ''openai'') None = Hangs
   \<and> (\<exists>results. analyze_market failing_world ''BTC'' (market_data_of demo_quote)
                   flat_prices False (PM_Str ''openai'') None = Returns results
        \<and> map (outcome_of_slot \<circ> snd) results
            = [Returns ''Error analyzing market data: [OpenAI] OpenAI response generation failed: service down'',
               Returns ''Error analyzing sentiment: [OpenAI] OpenAI response generation failed: service down'',
               Returns ''Error analyzing technical indicators: [OpenAI] OpenAI response generation failed: service down'',
               Returns ''Error analyzing risks: [OpenAI] OpenAI response generation failed: service down'',
               Returns ''Error generating portfolio advice: [OpenAI] OpenAI response generation failed: service down''])"
proof -
  have "Hangs \<in> set (map (\<lambda>(n, a). analyze hang_world a flat_prices
                                  (market_data_of demo_quote) False ''BTC'') openai_agents)"
    by (simp only: hang_tasks) simp
  then have h: "\<exists>(name, a) \<in> set openai_agents.
           analyze hang_world a flat_prices (market_data_of demo_quote) False ''BTC''
             = Hangs"
    by force
  have "Hangs \<notin> set (map (\<lambda>(n, a). analyze failing_world a flat_prices
                                  (market_data_of demo_quote) False ''BTC'') openai_agents)"
    by (simp only: failing_tasks) simp
  then have f: "\<not> (\<exists>(name, a) \<in> set openai_agents.
           analyze failing_world a flat_prices (market_data_of demo_quote) False ''BTC''
             = Hangs)"
    by force
  from gather_waits_for_every_task [OF hang_init, of flat_prices
        "market_data_of demo_quote" False "''BTC''"] h
  have 1: "analyze_market hang_world ''BTC'' (market_data_of demo_quote) flat_prices
     False (PM_Str ''openai'') None = Hangs"
    by simp
  from gather_waits_for_every_task [OF failing_init, of flat_prices
        "market_data_of demo_quote" False "''BTC''"] f
  have 2: "\<exists>results. analyze_market failing_world ''BTC'' (market_data_of demo_quote)
                   flat_prices False (PM_Str ''openai'') None = Returns results
        \<and> map (outcome_of_slot \<circ> snd) results
            = map (\<lambda>(n, a). analyze failing_world a flat_prices
                                  (market_data_of demo_quote) False ''BTC'') openai_agents"
    by auto
  from 1 2 show ?thesis by (simp only: failing_tasks)
qed

text \<open>
  C9, as stated, fails when the technical agent's client never answers: the request
  never returns, whatever the deadline, although the sentiment agent has its result.
\<close>

theorem no_deadline_counterexample:
  "analyze_market hang_world ''BTC'' (market_data_of demo_quote) flat_prices
     False (PM_Str ''openai'') None = Hangs
   \<and> SentimentAgent_analyze hang_world (demo_agent SentimentAgent (Some OpenAIProvider))
       flat_prices (market_data_of demo_quote) False ''BTC'' = Returns ''OK''
   \<and> TechnicalAgent_analyze hang_world (demo_agent TechnicalAgent (Some OpenAIProvider))
       flat_prices (market_data_of demo_quote) False ''BTC'' = Hangs"
proof -
  have "gather (map (\<lambda>(n, a). analyze hang_world a flat_prices
                                  (market_data_of demo_quote) False ''BTC'') openai_agents) = Hangs"
    by (simp only: hang_tasks) simp
  then have "analyze_market hang_world ''BTC'' (market_data_of demo_quote) flat_prices
     False (PM_Str ''openai'') None = Hangs"
    by (simp add: analyze_market_unfold [OF hang_init])
  moreover have "SentimentAgent_analyze hang_world (demo_agent SentimentAgent (Some OpenAIProvider))
       flat_prices (market_data_of demo_quote) False ''BTC'' = Returns ''OK''"
    by (simp add: analyze_defs world_defs quote_defs demo_agent_def)
  moreover have "TechnicalAgent_analyze hang_world (demo_agent TechnicalAgent (Some OpenAIProvider))
       flat_prices (market_data_of demo_quote) False ''BTC'' = Hangs"
    by (simp add: analyze_defs world_defs quote_defs demo_agent_def)
  ultimately show ?thesis by blast
qed

text \<open>
  C10. The sentiment, risk and portfolio agents do not read the price data: with two
  values of it and everything else the same, each returns the same result.
\<close>

theorem price_data_unread:
  "SentimentAgent_analyze W a pd1 md sr symbol = SentimentAgent_analyze W a pd2 md sr symbol
   \<and> RiskManagementAgent_analyze W a pd1 md sr symbol
       = RiskManagementAgent_analyze W a pd2 md sr symbol
   \<and> PortfolioAgent_analyze W a pd1 md sr symbol
       = PortfolioAgent_analyze W a pd2 md sr symbol"
  by (simp add: SentimentAgent_analyze_def sentiment_body_def RiskManagementAgent_analyze_def
        risk_body_def PortfolioAgent_analyze_def portfolio_body_def)


end
